theory Spec2Isabelle
  imports Complex_Main
begin

section \<open>Flight Coach AI: the game engine and the trainer\<close>

text \<open>
  A shallow embedding of \<^verbatim>\<open>src/lib/game-engine.ts\<close> and of the data preparation of
  \<^verbatim>\<open>src/lib/ml-trainer.ts\<close>.

  Conventions of the embedding.
  \<^item> A JavaScript \<^verbatim>\<open>number\<close> that the engine computes itself (positions, velocities,
    canvas sizes) is an exact \<open>real\<close>: rounding of doubles is not modelled.
  \<^item> A number stored in a dataset row can also come from a CSV file, so it is a
    \<open>number\<close>: a real, \<^verbatim>\<open>NaN\<close> or an infinity.
  \<^item> \<^verbatim>\<open>Math.random()\<close> and \<^verbatim>\<open>Date.now()\<close> are arguments of the operation that calls them.
  \<^item> The optional UI callbacks (\<^verbatim>\<open>onScoreUpdate?.(...)\<close> and the others),
    \<^verbatim>\<open>console.log\<close>, \<^verbatim>\<open>alert\<close> and drawing do not change the engine and are left out.
  \<^item> \<^verbatim>\<open>setTimeout(() => this.startGame(), 1000)\<close> is counted in the extra field
    \<open>scheduledRestarts\<close>.
\<close>

subsection \<open>Data\<close>

datatype GameState = Menu | Playing | Dead

datatype Level = Finetuning | Underfitting | Overfitting

datatype number = Num real | NaN | PosInfinity | NegInfinity

record Bird =
  pos_x :: real
  pos_y :: real
  vel_y :: real
  radius :: real

record Pipe =
  pipe_x :: real
  width :: real
  gapSize :: real
  gapCenter :: real
  passed :: bool

text \<open>
  \<^verbatim>\<open>pressed\<close> is only ever written as the literal 0 or 1 or as the result of
  \<^verbatim>\<open>Number.parseInt\<close>, so it is an integer or \<^verbatim>\<open>NaN\<close> (\<open>None\<close>).
\<close>

record GameData =
  pressed :: "int option"
  row_y :: number
  row_vel :: number
  row_dist :: number
  mid1 :: number
  mid2 :: number

record FeatureStats =
  means :: "real list"
  stds :: "real list"

record PausedState =
  ps_gameState :: GameState
  ps_gameStarted :: bool
  ps_hoverOffset :: real

text \<open>The trained classifier is opaque to the engine: a handle naming the training run.\<close>

datatype tfmodel = TrainedModel nat

record GameEngine =
  canvas_width :: real
  canvas_height :: real
  bird :: Bird
  pipes :: "Pipe list"
  score :: nat
  highScore :: nat
  state :: GameState
  keys :: "string \<rightharpoonup> bool"
  nextPipeDist :: real
  prevSpace :: bool
  isRecording :: bool
  isAI :: bool
  dataset :: "GameData list"
  model :: "tfmodel option"
  featureStats :: "FeatureStats option"
  aiPredictionCount :: nat
  jumpScheduled :: bool
  dataBuffer :: "GameData option"
  framesSinceLastJump :: nat
  gameOverTime :: int
  gameStarted :: bool
  hoverOffset :: real
  currentLevel :: Level
  fixedGapCenter :: real
  isPaused :: bool
  pausedState :: "PausedState option"
  scheduledRestarts :: nat

text \<open>Fields the constructor assigns once and nothing writes again.\<close>

definition gravity :: real where "gravity = 0.2"
definition jumpStrength :: real where "jumpStrength = - 5"
definition pipeSpeed :: real where "pipeSpeed = 2"
definition pipeInterval :: real where "pipeInterval = 250"
definition gameOverDelay :: int where "gameOverDelay = 1000"

subsection \<open>Entities\<close>

definition Bird_new :: Bird where
  "Bird_new = \<lparr>pos_x = 50, pos_y = 300, vel_y = 0, radius = 20\<rparr>"

definition Bird_reset :: "Bird \<Rightarrow> Bird" where
  "Bird_reset b = b\<lparr>pos_x := 50, pos_y := 300, vel_y := 0\<rparr>"

text \<open>
  \<^verbatim>\<open>new Pipe(canvasHeight, x, fixedGapCenter?)\<close>; \<open>rnd\<close> is the value of
  \<^verbatim>\<open>Math.random()\<close>, read only when no fixed gap centre is passed.
\<close>

definition Pipe_new :: "real \<Rightarrow> real \<Rightarrow> real option \<Rightarrow> real \<Rightarrow> Pipe" where
  "Pipe_new canvasHeight x fixedGap rnd =
     \<lparr>pipe_x = x, width = 40, gapSize = 200,
      gapCenter = (case fixedGap of Some f \<Rightarrow> f | None \<Rightarrow> rnd * (canvasHeight - 300) + 150),
      passed = False\<rparr>"

definition pipe_top :: "Pipe \<Rightarrow> real" where
  "pipe_top p = gapCenter p - gapSize p / 2"

definition pipe_bottom :: "Pipe \<Rightarrow> real" where
  "pipe_bottom p = gapCenter p + gapSize p / 2"

definition GameEngine_new :: "real \<Rightarrow> real \<Rightarrow> GameEngine" where
  "GameEngine_new w h =
     \<lparr>canvas_width = w, canvas_height = h, bird = Bird_new, pipes = [], score = 0,
      highScore = 0, state = Menu, keys = Map.empty, nextPipeDist = 0, prevSpace = False,
      isRecording = False, isAI = False, dataset = [], model = None, featureStats = None,
      aiPredictionCount = 0, jumpScheduled = False, dataBuffer = None,
      framesSinceLastJump = 0, gameOverTime = 0, gameStarted = False, hoverOffset = 0,
      currentLevel = Finetuning, fixedGapCenter = h / 2, isPaused = False,
      pausedState = None, scheduledRestarts = 0\<rparr>"

subsection \<open>Feature extraction\<close>

text \<open>
  Division of a row value by a finite double. The divisors are the canvas sizes and the
  constant 10, never negative zero.
\<close>

definition ndiv :: "number \<Rightarrow> real \<Rightarrow> number" where
  "ndiv v c =
     (case v of
        NaN \<Rightarrow> NaN
      | PosInfinity \<Rightarrow> (if c < 0 then NegInfinity else PosInfinity)
      | NegInfinity \<Rightarrow> (if c < 0 then PosInfinity else NegInfinity)
      | Num a \<Rightarrow>
          (if c \<noteq> 0 then Num (a / c)
           else if a = 0 then NaN
           else if 0 < a then PosInfinity else NegInfinity))"

text \<open>
  \<^verbatim>\<open>getNextPipe(offset)\<close>: the pipes not yet behind the bird, sorted by x
  (\<^verbatim>\<open>Array.prototype.sort\<close> is stable, as is \<open>sort_key\<close>), indexed at \<open>offset\<close>;
  \<^verbatim>\<open>upcoming[offset] || null\<close> is \<open>None\<close> out of range.
\<close>

definition getNextPipe :: "nat \<Rightarrow> GameEngine \<Rightarrow> Pipe option" where
  "getNextPipe offset s =
     (let upcoming = sort_key pipe_x
            (filter (\<lambda>p. pipe_x p + width p > pos_x (bird s) - radius (bird s)) (pipes s))
      in if offset < length upcoming then Some (upcoming ! offset) else None)"

definition getCurrentData :: "GameEngine \<Rightarrow> GameData" where
  "getCurrentData s =
     (let next = getNextPipe 0 s; nextNext = getNextPipe 1 s in
      \<lparr>pressed = Some 0,
       row_y = Num (pos_y (bird s)),
       row_vel = Num (vel_y (bird s)),
       row_dist = Num (case next of Some p \<Rightarrow> pipe_x p - pos_x (bird s) | None \<Rightarrow> canvas_width s),
       mid1 = Num (case next of Some p \<Rightarrow> gapCenter p | None \<Rightarrow> canvas_height s / 2),
       mid2 = Num (case nextNext of Some p \<Rightarrow> gapCenter p | None \<Rightarrow> canvas_height s / 2)\<rparr>)"

definition getRawFeatures :: "GameEngine \<Rightarrow> number list" where
  "getRawFeatures s =
     (let next = getNextPipe 0 s; nextNext = getNextPipe 1 s in
      [ndiv (Num (pos_y (bird s))) (canvas_height s),
       ndiv (Num (vel_y (bird s))) 10,
       (case next of Some p \<Rightarrow> ndiv (Num (pipe_x p - pos_x (bird s))) (canvas_width s)
        | None \<Rightarrow> Num 1),
       (case next of Some p \<Rightarrow> ndiv (Num (gapCenter p)) (canvas_height s)
        | None \<Rightarrow> ndiv (Num (pos_y (bird s))) (canvas_height s)),
       (case nextNext of Some p \<Rightarrow> ndiv (Num (gapCenter p)) (canvas_height s)
        | None \<Rightarrow> ndiv (Num (pos_y (bird s))) (canvas_height s))])"

text \<open>
  The feature row the trainer builds from a dataset row
  (\<^verbatim>\<open>[d.y / canvasHeight, d.vel / 10, d.dist / canvasWidth, d.mid1 / canvasHeight,
  d.mid2 / canvasHeight]\<close>); \<^verbatim>\<open>preprocessFeatures(raw, null)\<close> returns the same five values.
\<close>

definition rowFeatures :: "real \<Rightarrow> real \<Rightarrow> GameData \<Rightarrow> number list" where
  "rowFeatures canvasHeight canvasWidth d =
     [ndiv (row_y d) canvasHeight, ndiv (row_vel d) 10, ndiv (row_dist d) canvasWidth,
      ndiv (mid1 d) canvasHeight, ndiv (mid2 d) canvasHeight]"

subsection \<open>Recording controls\<close>

definition setLevel :: "Level \<Rightarrow> GameEngine \<Rightarrow> GameEngine" where
  "setLevel level s =
     s\<lparr>currentLevel := level, fixedGapCenter := canvas_height s / 2, isRecording := False\<rparr>"

definition startRecording :: "GameEngine \<Rightarrow> GameEngine" where
  "startRecording s = s\<lparr>isRecording := True, dataBuffer := None\<rparr>"

definition pauseRecording :: "GameEngine \<Rightarrow> GameEngine" where
  "pauseRecording s = s\<lparr>isRecording := False\<rparr>"

definition resumeRecording :: "GameEngine \<Rightarrow> GameEngine" where
  "resumeRecording s = s\<lparr>isRecording := True\<rparr>"

definition clearDataset :: "GameEngine \<Rightarrow> GameEngine" where
  "clearDataset s = s\<lparr>dataset := []\<rparr>"

subsection \<open>The 100 ms timer: data collection and AI sampling\<close>

text \<open>
  \<^verbatim>\<open>makeAIPrediction\<close> has a synchronous part, which counts the prediction and extracts
  the features, and a continuation that runs once TensorFlow.js is loaded and the model
  has answered. The features do not change the engine, so the synchronous part is the
  counter alone.
\<close>

definition makeAIPrediction :: "GameEngine \<Rightarrow> GameEngine" where
  "makeAIPrediction s = s\<lparr>aiPredictionCount := aiPredictionCount s + 1\<rparr>"

text \<open>
  The continuation, for the scalar \<open>pred\<close> the model returned
  (\<^verbatim>\<open>this.model.predict(xs).dataSync()[0]\<close>). When the model has been removed in the
  meantime the call throws, and \<^verbatim>\<open>.catch\<close> only logs the error.
\<close>

definition makeAIPrediction_then :: "real \<Rightarrow> GameEngine \<Rightarrow> GameEngine" where
  "makeAIPrediction_then pred s =
     (if model s = None then s else
      let baseThreshold = 0.5;
          adjustedThreshold = (if framesSinceLastJump s < 10 then 0.7 else baseThreshold);
          shouldJump = (pred > adjustedThreshold)
      in if shouldJump
         then s\<lparr>bird := (bird s)\<lparr>vel_y := jumpStrength\<rparr>, framesSinceLastJump := 0\<rparr>
         else s\<lparr>framesSinceLastJump := framesSinceLastJump s + 1\<rparr>)"

text \<open>
  The \<^verbatim>\<open>setInterval\<close> callback of \<^verbatim>\<open>setupDataCollection\<close>: first its recording branch,
  then the whole callback.
\<close>

definition recordTick :: "GameEngine \<Rightarrow> GameEngine" where
  "recordTick s =
     (if isRecording s \<and> gameStarted s then
        (let maxDataPoints = (if currentLevel s = Underfitting then Some (50::nat) else None) in
         if (case maxDataPoints of Some m \<Rightarrow> m \<noteq> 0 \<and> length (dataset s) \<ge> m | None \<Rightarrow> False)
         then pauseRecording s
         else
           (let s1 = (case dataBuffer s of
                        None \<Rightarrow> s
                      | Some b \<Rightarrow>
                          s\<lparr>dataset := dataset s
                               @ [b\<lparr>pressed := Some (if jumpScheduled s then 1 else 0)\<rparr>]\<rparr>)
            in s1\<lparr>dataBuffer := Some (getCurrentData s1), jumpScheduled := False\<rparr>))
      else s)"

definition dataCollectionTick :: "GameEngine \<Rightarrow> GameEngine" where
  "dataCollectionTick s =
     (if isPaused s \<or> state s \<noteq> Playing then s
      else
        (let s1 = recordTick s in
         if isAI s1 \<and> model s1 \<noteq> None then makeAIPrediction s1 else s1))"

subsection \<open>Rounds\<close>

definition startGame :: "real \<Rightarrow> GameEngine \<Rightarrow> GameEngine" where
  "startGame rnd s =
     s\<lparr>bird := Bird_reset (bird s),
       pipes := (if currentLevel s = Overfitting
                 then [Pipe_new (canvas_height s) (canvas_width s) (Some (fixedGapCenter s)) rnd]
                 else [Pipe_new (canvas_height s) (canvas_width s) None rnd]),
       nextPipeDist := pipeInterval,
       score := 0,
       state := Playing,
       prevSpace := False,
       keys := (keys s)('' '' \<mapsto> False),
       aiPredictionCount := 0,
       framesSinceLastJump := 0,
       dataBuffer := None,
       jumpScheduled := False,
       gameStarted := False,
       hoverOffset := 0\<rparr>"

text \<open>\<open>now\<close> is \<^verbatim>\<open>Date.now()\<close>. In AI mode a restart is scheduled one second later.\<close>

definition endGame :: "int \<Rightarrow> GameEngine \<Rightarrow> GameEngine" where
  "endGame now s =
     (let s1 = s\<lparr>state := Dead, gameOverTime := now\<rparr>;
          s2 = (if score s1 > highScore s1 then s1\<lparr>highScore := score s1\<rparr> else s1)
      in if isAI s2 then s2\<lparr>scheduledRestarts := scheduledRestarts s2 + 1\<rparr> else s2)"

text \<open>The callback of that timer.\<close>

definition restartTimerFired :: "real \<Rightarrow> GameEngine \<Rightarrow> GameEngine" where
  "restartTimerFired rnd s =
     (if scheduledRestarts s = 0 then s
      else startGame rnd (s\<lparr>scheduledRestarts := scheduledRestarts s - 1\<rparr>))"

subsection \<open>Input events\<close>

definition canStart :: "int \<Rightarrow> GameEngine \<Rightarrow> bool" where
  "canStart now s \<longleftrightarrow>
     (state s = Menu \<or> (state s = Dead \<and> now - gameOverTime s > gameOverDelay)) \<and> \<not> isAI s"

definition keydown :: "string \<Rightarrow> int \<Rightarrow> real \<Rightarrow> GameEngine \<Rightarrow> GameEngine" where
  "keydown key now rnd s =
     (if isPaused s then s
      else
        (let s1 = s\<lparr>keys := (keys s)(key \<mapsto> True)\<rparr> in
         if key = '' '' \<and> canStart now s1 then startGame rnd s1 else s1))"

definition keyup :: "string \<Rightarrow> GameEngine \<Rightarrow> GameEngine" where
  "keyup key s =
     (if isPaused s then s
      else
        (let s1 = s\<lparr>keys := (keys s)(key \<mapsto> False)\<rparr> in
         if key = '' '' then s1\<lparr>prevSpace := False\<rparr> else s1))"

definition click :: "int \<Rightarrow> real \<Rightarrow> GameEngine \<Rightarrow> GameEngine" where
  "click now rnd s =
     (if isPaused s then s
      else if state s = Playing \<and> \<not> isAI s then
        s\<lparr>bird := (bird s)\<lparr>vel_y := jumpStrength\<rparr>, jumpScheduled := True, gameStarted := True\<rparr>
      else if canStart now s then startGame rnd s
      else s)"

subsection \<open>The physics step\<close>

definition collides :: "Bird \<Rightarrow> Pipe \<Rightarrow> bool" where
  "collides b p \<longleftrightarrow>
     pos_x b + radius b > pipe_x p \<and>
     pos_x b - radius b < pipe_x p + width p \<and>
     (pos_y b - radius b < pipe_top p \<or> pos_y b + radius b > pipe_bottom p)"

text \<open>
  The \<^verbatim>\<open>for (const pipe of this.pipes)\<close> loop of \<^verbatim>\<open>update\<close>: each pipe is moved, then
  tested. A collision ends the loop at once (the pipes behind it are not moved); the flag
  of the result says so. Otherwise a pipe that has just been passed is marked and scored.
\<close>

fun movePipes :: "Bird \<Rightarrow> Pipe list \<Rightarrow> nat \<Rightarrow> Pipe list \<times> nat \<times> bool" where
  "movePipes b [] sc = ([], sc, False)"
| "movePipes b (p # ps) sc =
     (let p1 = p\<lparr>pipe_x := pipe_x p - pipeSpeed\<rparr> in
      if collides b p1 then (p1 # ps, sc, True)
      else
        (let scored = (pipe_x p1 + width p1 < pos_x b \<and> \<not> passed p1);
             p2 = (if scored then p1\<lparr>passed := True\<rparr> else p1);
             sc2 = (if scored then sc + 1 else sc);
             (ps', sc', hit) = movePipes b ps sc2
         in (p2 # ps', sc', hit)))"

text \<open>The pipe \<^verbatim>\<open>update\<close> spawns when the spawn distance has run out.\<close>

definition spawnPipe :: "real \<Rightarrow> GameEngine \<Rightarrow> Pipe" where
  "spawnPipe rnd s =
     (if currentLevel s = Overfitting then
        (if isAI s then Pipe_new (canvas_height s) (canvas_width s) None rnd
         else Pipe_new (canvas_height s) (canvas_width s) (Some (fixedGapCenter s)) rnd)
      else Pipe_new (canvas_height s) (canvas_width s) None rnd)"

text \<open>
  The first branch of \<^verbatim>\<open>update\<close> (the round has started, or the AI plays): gravity,
  spawning, recycling and the pipe loop. The flag of the result is the collision flag of
  the loop.
\<close>

definition physicsStep :: "real \<Rightarrow> GameEngine \<Rightarrow> GameEngine \<times> bool" where
  "physicsStep rnd s =
     (let v = vel_y (bird s) + gravity;
          s1 = s\<lparr>bird := (bird s)\<lparr>vel_y := v, pos_y := pos_y (bird s) + v\<rparr>,
                 nextPipeDist := nextPipeDist s - pipeSpeed\<rparr>;
          s2 = (if nextPipeDist s1 \<le> 0
                then s1\<lparr>pipes := pipes s1 @ [spawnPipe rnd s1], nextPipeDist := pipeInterval\<rparr>
                else s1);
          s3 = s2\<lparr>pipes := filter (\<lambda>p. pipe_x p + width p > 0) (pipes s2)\<rparr>;
          (ps, sc, hit) = movePipes (bird s3) (pipes s3) (score s3)
      in (s3\<lparr>pipes := ps, score := sc\<rparr>, hit))"

definition hoverStep :: "GameEngine \<Rightarrow> GameEngine" where
  "hoverStep s =
     (let h = hoverOffset s + 0.05;
          vibrationAmount = sin h * 2
      in s\<lparr>hoverOffset := h, bird := (bird s)\<lparr>pos_y := 300 + vibrationAmount\<rparr>\<rparr>)"

definition handleInput :: "GameEngine \<Rightarrow> GameEngine" where
  "handleInput s =
     (if \<not> isAI s \<and> keys s '' '' = Some True \<and> \<not> prevSpace s
      then s\<lparr>bird := (bird s)\<lparr>vel_y := jumpStrength\<rparr>, prevSpace := True,
             jumpScheduled := True, gameStarted := True\<rparr>
      else s)"

definition outOfBounds :: "GameEngine \<Rightarrow> bool" where
  "outOfBounds s \<longleftrightarrow>
     pos_y (bird s) + radius (bird s) > canvas_height s \<or> pos_y (bird s) - radius (bird s) < 0"

definition update :: "real \<Rightarrow> int \<Rightarrow> GameEngine \<Rightarrow> GameEngine" where
  "update rnd now s =
     (if isPaused s \<or> state s \<noteq> Playing then s
      else
        (let (s1, hit) = (if gameStarted s \<or> isAI s then physicsStep rnd s
                          else (hoverStep s, False))
         in if hit then endGame now s1
            else
              (let s2 = handleInput s1 in
               if (gameStarted s2 \<or> isAI s2) \<and> outOfBounds s2 then endGame now s2 else s2)))"

subsection \<open>AI and session controls\<close>

definition startAI :: "real \<Rightarrow> GameEngine \<Rightarrow> GameEngine" where
  "startAI rnd s =
     (if model s = None then s
      else
        (let s1 = s\<lparr>isAI := True\<rparr> in
         if state s1 = Menu \<or> state s1 = Dead then startGame rnd s1 else s1))"

definition stopAI :: "int \<Rightarrow> GameEngine \<Rightarrow> GameEngine" where
  "stopAI now s =
     (let s1 = s\<lparr>isAI := False\<rparr> in
      if state s1 = Playing then endGame now s1 else s1)"

definition restart :: "GameEngine \<Rightarrow> GameEngine" where
  "restart s =
     s\<lparr>bird := Bird_reset (bird s),
       pipes := [],
       score := 0,
       state := Menu,
       keys := Map.empty,
       prevSpace := False,
       aiPredictionCount := 0,
       framesSinceLastJump := 0,
       dataBuffer := None,
       jumpScheduled := False,
       gameStarted := False,
       hoverOffset := 0,
       gameOverTime := 0,
       dataset := [],
       isRecording := False,
       isAI := False,
       model := None,
       featureStats := None\<rparr>"

definition pause :: "GameEngine \<Rightarrow> GameEngine" where
  "pause s =
     (if isPaused s then s
      else s\<lparr>isPaused := True,
             pausedState := Some \<lparr>ps_gameState = state s, ps_gameStarted = gameStarted s,
                                 ps_hoverOffset = hoverOffset s\<rparr>\<rparr>)"

definition resume :: "GameEngine \<Rightarrow> GameEngine" where
  "resume s =
     (if \<not> isPaused s then s
      else
        (let s1 = s\<lparr>isPaused := False\<rparr> in
         case pausedState s1 of Some _ \<Rightarrow> s1\<lparr>pausedState := None\<rparr> | None \<Rightarrow> s1))"

subsection \<open>Strings and numbers of the CSV format\<close>

text \<open>
  A string is a list of code units, here below 256. The functions of this subsection are
  the ECMAScript built-ins the engine calls, on exact reals: \<^verbatim>\<open>split\<close> and \<^verbatim>\<open>join\<close> with
  a one-character separator, \<^verbatim>\<open>trim\<close>, \<^verbatim>\<open>Number.parseInt\<close> (no radix),
  \<^verbatim>\<open>Number.parseFloat\<close>, \<^verbatim>\<open>toFixed(2)\<close> and the conversion of a number to a string
  inside a template literal. \<^verbatim>\<open>split\<close> never returns an empty array, so the second case of
  its \<open>case\<close> is never taken.
\<close>

fun jsSplit :: "char \<Rightarrow> string \<Rightarrow> string list" where
  "jsSplit c [] = [[]]"
| "jsSplit c (x # xs) =
     (if x = c then [] # jsSplit c xs
      else (case jsSplit c xs of l # ls \<Rightarrow> (x # l) # ls | [] \<Rightarrow> [[x]]))"

fun jsJoin :: "string \<Rightarrow> string list \<Rightarrow> string" where
  "jsJoin sep [] = []"
| "jsJoin sep [l] = l"
| "jsJoin sep (l # m # ls) = l @ sep @ jsJoin sep (m # ls)"

definition jsWhitespace :: "char \<Rightarrow> bool" where
  "jsWhitespace c \<longleftrightarrow>
     c \<in> set [CHR 0x09, CHR 0x0A, CHR 0x0B, CHR 0x0C, CHR 0x0D, CHR 0x20, CHR 0xA0]"

definition jsTrim :: "string \<Rightarrow> string" where
  "jsTrim str = rev (dropWhile jsWhitespace (rev (dropWhile jsWhitespace str)))"

definition isDigit :: "char \<Rightarrow> bool" where
  "isDigit c \<longleftrightarrow> c \<in> set ''0123456789''"

definition digitVal :: "char \<Rightarrow> nat" where
  "digitVal c = of_char c - 48"

definition digitChar :: "nat \<Rightarrow> char" where
  "digitChar d = ''0123456789'' ! d"

definition isHexDigit :: "char \<Rightarrow> bool" where
  "isHexDigit c \<longleftrightarrow> c \<in> set ''0123456789abcdefABCDEF''"

definition hexVal :: "char \<Rightarrow> nat" where
  "hexVal c =
     (if isDigit c then digitVal c
      else if c \<in> set ''abcdef'' then of_char c - 87
      else of_char c - 55)"

definition parseNat :: "string \<Rightarrow> nat" where
  "parseNat ds = foldl (\<lambda>a c. 10 * a + digitVal c) 0 ds"

definition parseHex :: "string \<Rightarrow> nat" where
  "parseHex ds = foldl (\<lambda>a c. 16 * a + hexVal c) 0 ds"

fun showNat :: "nat \<Rightarrow> string" where
  "showNat n = (if n < 10 then [digitChar n] else showNat (n div 10) @ [digitChar (n mod 10)])"

declare showNat.simps [simp del]

definition isNegative :: "string \<Rightarrow> bool" where
  "isNegative str \<longleftrightarrow> str \<noteq> [] \<and> hd str = CHR ''-''"

definition dropSign :: "string \<Rightarrow> string" where
  "dropSign str =
     (if str \<noteq> [] \<and> (hd str = CHR ''+'' \<or> hd str = CHR ''-'') then tl str else str)"

text \<open>
  \<^verbatim>\<open>Number.parseInt(str)\<close>: leading white space, a sign, the prefix \<^verbatim>\<open>0x\<close> for radix 16,
  then the longest run of digits; \<^verbatim>\<open>NaN\<close> when that run is empty.
\<close>

definition parseInt :: "string \<Rightarrow> int option" where
  "parseInt str =
     (let s0 = dropWhile jsWhitespace str;
          s1 = dropSign s0;
          hex = (take 2 s1 = ''0x'' \<or> take 2 s1 = ''0X'');
          s2 = (if hex then drop 2 s1 else s1);
          z = takeWhile (if hex then isHexDigit else isDigit) s2;
          v = int (if hex then parseHex z else parseNat z)
      in if z = [] then None else Some (if isNegative s0 then - v else v))"

definition exponentPart :: "string \<Rightarrow> int" where
  "exponentPart r =
     (if r \<noteq> [] \<and> (hd r = CHR ''e'' \<or> hd r = CHR ''E'') then
        (let ed = takeWhile isDigit (dropSign (tl r)) in
         if ed = [] then 0
         else if isNegative (tl r) then - int (parseNat ed) else int (parseNat ed))
      else 0)"

text \<open>
  \<^verbatim>\<open>Number.parseFloat(str)\<close>: leading white space, then the longest prefix that is a
  decimal literal (a sign, \<^verbatim>\<open>Infinity\<close> or digits with an optional fraction and an
  optional complete exponent); \<^verbatim>\<open>NaN\<close> when there is none.
\<close>

definition parseFloat :: "string \<Rightarrow> number" where
  "parseFloat str =
     (let s0 = dropWhile jsWhitespace str;
          s1 = dropSign s0
      in if take 8 s1 = ''Infinity'' then (if isNegative s0 then NegInfinity else PosInfinity)
         else
           (let ip = takeWhile isDigit s1;
                r1 = dropWhile isDigit s1;
                hasDot = (r1 \<noteq> [] \<and> hd r1 = CHR ''.'');
                fp = (if hasDot then takeWhile isDigit (tl r1) else []);
                r2 = (if hasDot then dropWhile isDigit (tl r1) else r1);
                ex = exponentPart r2;
                m = real (parseNat ip) + real (parseNat fp) / 10 ^ length fp;
                v = (if 0 \<le> ex then m * 10 ^ nat ex else m / 10 ^ nat (- ex))
            in if ip = [] \<and> fp = [] then NaN
               else Num (if isNegative s0 then - v else v)))"

text \<open>
  The digits of a natural number as \<^verbatim>\<open>Number::toString\<close> writes them: plain below
  \<open>10^21\<close>, and from there on the significant digits, a point after the first one, and
  the exponent. The digits are those of the exact number (a double prints the shortest
  digits that identify it).
\<close>

definition dropTrailingZeros :: "string \<Rightarrow> string" where
  "dropTrailingZeros ds = rev (dropWhile (\<lambda>c. c = CHR ''0'') (rev ds))"

definition natToString :: "nat \<Rightarrow> string" where
  "natToString n =
     (if n < 10 ^ 21 then showNat n
      else
        (let ds = showNat n;
             sig = dropTrailingZeros ds
         in (if length sig = 1 then sig else hd sig # CHR ''.'' # tl sig)
            @ ''e+'' @ showNat (length ds - 1)))"

text \<open>\<^verbatim>\<open>`${row.pressed}`\<close>.\<close>

definition pressedToString :: "int option \<Rightarrow> string" where
  "pressedToString v =
     (case v of
        None \<Rightarrow> ''NaN''
      | Some i \<Rightarrow> (if i < 0 then CHR ''-'' # natToString (nat (- i)) else natToString (nat i)))"

text \<open>
  \<^verbatim>\<open>x.toFixed(2)\<close> for \<open>0 \<le> x\<close>: the integer \<open>n\<close> nearest to \<open>100 x\<close> (the larger of two),
  its digits padded to three, and a point before the last two. From \<open>10^21\<close> on the
  result is that of \<^verbatim>\<open>Number::toString\<close>; a double of that size is an integer.
\<close>

definition toFixedAbs :: "real \<Rightarrow> string" where
  "toFixedAbs x =
     (if 10 ^ 21 \<le> x then natToString (nat \<lfloor>x\<rfloor>)
      else
        (let n = nat \<lfloor>x * 100 + 1 / 2\<rfloor>;
             m = showNat n;
             m' = (if length m \<le> 2 then replicate (3 - length m) (CHR ''0'') @ m else m);
             k = length m'
         in take (k - 2) m' @ ''.'' @ drop (k - 2) m'))"

definition toFixed2 :: "number \<Rightarrow> string" where
  "toFixed2 v =
     (case v of
        NaN \<Rightarrow> ''NaN''
      | PosInfinity \<Rightarrow> ''Infinity''
      | NegInfinity \<Rightarrow> ''-Infinity''
      | Num x \<Rightarrow> (if x < 0 then CHR ''-'' # toFixedAbs (- x) else toFixedAbs x))"

subsection \<open>Export and import of the dataset\<close>

definition csvHeader :: string where
  "csvHeader = ''pressed,y,vel,dist,mid1,mid2''"

definition newline :: char where
  "newline = CHR 0x0A"

definition rowLine :: "GameData \<Rightarrow> string" where
  "rowLine row =
     pressedToString (pressed row) @ '','' @ toFixed2 (row_y row) @ '','' @ toFixed2 (row_vel row)
       @ '','' @ toFixed2 (row_dist row) @ '','' @ toFixed2 (mid1 row) @ '','' @ toFixed2 (mid2 row)"

text \<open>\<^verbatim>\<open>downloadCSV\<close> does not change the engine; the result is the text of the file, or
  \<open>None\<close> when there is nothing to download.\<close>

definition downloadCSV :: "GameEngine \<Rightarrow> string option" where
  "downloadCSV s =
     (if length (dataset s) = 0 then None
      else Some (csvHeader @ [newline] @ jsJoin [newline] (map rowLine (dataset s))))"

definition parseRow :: "string list \<Rightarrow> GameData" where
  "parseRow values =
     \<lparr>pressed = parseInt (values ! 0),
      row_y = parseFloat (values ! 1),
      row_vel = parseFloat (values ! 2),
      row_dist = parseFloat (values ! 3),
      mid1 = parseFloat (values ! 4),
      mid2 = parseFloat (values ! 5)\<rparr>"

text \<open>
  The loop over the data lines, the same in \<^verbatim>\<open>uploadCSV\<close> and in the trainer: a blank
  line and a line that does not split into six fields are skipped.
\<close>

fun parseDataLines :: "string list \<Rightarrow> GameData list" where
  "parseDataLines [] = []"
| "parseDataLines (l # ls) =
     (if jsTrim l = [] then parseDataLines ls
      else
        (let values = jsSplit (CHR '','') l in
         if length values \<noteq> 6 then parseDataLines ls
         else parseRow values # parseDataLines ls))"

datatype csvError = InvalidCSVFormat | NoValidData

text \<open>
  \<^verbatim>\<open>uploadCSV\<close>, for the text the file reader delivers: the reason of the rejection
  (\<open>None\<close> when the promise resolves) and the engine afterwards.
\<close>

definition uploadCSV :: "string \<Rightarrow> GameEngine \<Rightarrow> csvError option \<times> GameEngine" where
  "uploadCSV text_in s =
     (let lines = jsSplit newline text_in;
          headers = jsSplit (CHR '','') (hd lines)
      in if jsJoin '','' headers \<noteq> csvHeader then (Some InvalidCSVFormat, s)
         else
           (let newData = parseDataLines (tl lines) in
            if length newData > 0 then (None, s\<lparr>dataset := dataset s @ newData\<rparr>)
            else (Some NoValidData, s)))"

subsection \<open>The trainer: preparing the dataset\<close>

datatype trainError = NeedAtLeast50 | NoJumpActions

text \<open>
  The rows the fine-tuning level adds: the first 500 lines after the header of the
  fetched file; \<open>None\<close> is a failed fetch, after which the dataset is used alone.
\<close>

definition finalDataset :: "GameData list \<Rightarrow> Level \<Rightarrow> string option \<Rightarrow> GameData list" where
  "finalDataset ds level fetched =
     (if level = Finetuning then
        (case fetched of
           None \<Rightarrow> ds
         | Some csvText \<Rightarrow> ds @ parseDataLines (take 500 (tl (jsSplit newline csvText))))
      else ds)"

text \<open>
  The sampling loop
  \<^verbatim>\<open>for (let i = 0; i < class0.length; i += step) if (sampled.length < sampleSize) sampled.push(class0[i])\<close>.
  With \<open>step = 0\<close> it would not end, so the result is an option.
\<close>

partial_function (option) sampleLoop ::
  "'a list \<Rightarrow> nat \<Rightarrow> nat \<Rightarrow> nat \<Rightarrow> 'a list \<Rightarrow> 'a list option" where
  "sampleLoop class0 sampleSize step i sampled =
     (if i < length class0
      then sampleLoop class0 sampleSize step (i + step)
             (if length sampled < sampleSize then sampled @ [class0 ! i] else sampled)
      else Some sampled)"

text \<open>
  The numbers of the balancing stage are IEEE 754 doubles, and the quotient of two array
  lengths is in general not one: it is rounded to the nearest double, ties to the even
  mantissa. A positive double is a mantissa and a binary exponent. Array lengths are below
  \<open>2^32\<close>, so every quotient and product below is in the normal range and the mantissa
  has 53 bits; no exponent bound is modelled.
\<close>

datatype double = Double nat int

fun doubleValue :: "double \<Rightarrow> real" where
  "doubleValue (Double m k) = (if 0 \<le> k then real m * 2 ^ nat k else real m / 2 ^ nat (- k))"

fun bitLength :: "nat \<Rightarrow> nat" where
  "bitLength n = (if n = 0 then 0 else Suc (bitLength (n div 2)))"

declare bitLength.simps [simp del]

text \<open>The integer nearest to \<open>a / b\<close>, a tie going to the even one.\<close>

definition roundQuotient :: "nat \<Rightarrow> nat \<Rightarrow> nat" where
  "roundQuotient a b =
     (let q = a div b; r = a mod b in
      if 2 * r < b then q
      else if b < 2 * r then q + 1
      else if even q then q else q + 1)"

text \<open>
  The double nearest to the rational \<open>a / b\<close>, for \<open>b > 0\<close>: with
  \<open>2^e \<le> a / b < 2^(e + 1)\<close> the quotient is rounded to a multiple of \<open>2^(e - 52)\<close>.
\<close>

definition nearestDouble :: "nat \<Rightarrow> nat \<Rightarrow> double" where
  "nearestDouble a b =
     (if a = 0 then Double 0 0
      else
        (let d = int (bitLength a) - int (bitLength b);
             e = (if (if 0 \<le> d then b * 2 ^ nat d \<le> a else b \<le> a * 2 ^ nat (- d))
                  then d else d - 1);
             k = e - 52
         in Double (if 0 \<le> k then roundQuotient a (b * 2 ^ nat k)
                    else roundQuotient (a * 2 ^ nat (- k)) b) k))"

text \<open>
  The four operations of the stage: \<^verbatim>\<open>a.length / b.length\<close>, \<^verbatim>\<open>Math.min(2, r)\<close>,
  \<^verbatim>\<open>a.length * r\<close> (the exact product, rounded once) and \<^verbatim>\<open>Math.floor\<close>.
\<close>

definition lengthDividedBy :: "nat \<Rightarrow> nat \<Rightarrow> double" where
  "lengthDividedBy a b = nearestDouble a b"

definition Math_min_2 :: "double \<Rightarrow> double" where
  "Math_min_2 r = (if doubleValue r < 2 then r else Double 2 0)"

fun lengthTimes :: "nat \<Rightarrow> double \<Rightarrow> double" where
  "lengthTimes n (Double m k) =
     (if 0 \<le> k then nearestDouble (n * m * 2 ^ nat k) 1
      else nearestDouble (n * m) (2 ^ nat (- k)))"

definition Math_floor :: "double \<Rightarrow> nat" where
  "Math_floor r = nat \<lfloor>doubleValue r\<rfloor>"

text \<open>
  Balancing. When \<open>sampleSize\<close> is 0 the step is not a finite number
  (\<^verbatim>\<open>Math.floor(n / 0)\<close>) and the loop ends after at most one round without a push.
  The result is the pair \<^verbatim>\<open>balancedFeatures\<close>, \<^verbatim>\<open>balancedLabels\<close> handed to the shuffle.
\<close>

definition balanceDataset ::
  "real \<Rightarrow> real \<Rightarrow> GameData list \<Rightarrow> (trainError + number list list \<times> int list list) option" where
  "balanceDataset canvasHeight canvasWidth ds =
     (let class0 = filter (\<lambda>d. pressed d = Some 0) ds;
          class1 = filter (\<lambda>d. pressed d = Some 1) ds
      in if length class1 > 0 then
           (let ratio = Math_min_2 (lengthDividedBy (length class0) (length class1));
                sampleSize = Math_floor (lengthTimes (length class1) ratio);
                step = Math_floor (lengthDividedBy (length class0) sampleSize)
            in case (if sampleSize = 0 then Some [] else sampleLoop class0 sampleSize step 0 []) of
                 None \<Rightarrow> None
               | Some sampledClass0 \<Rightarrow>
                   Some (Inr (map (rowFeatures canvasHeight canvasWidth) sampledClass0
                                @ map (rowFeatures canvasHeight canvasWidth) class1,
                              map (\<lambda>d. [0]) sampledClass0 @ map (\<lambda>d. [1]) class1)))
         else Some (Inl NoJumpActions))"

definition MLTrainer_prepare ::
  "GameData list \<Rightarrow> real \<Rightarrow> real \<Rightarrow> Level \<Rightarrow> string option
     \<Rightarrow> (trainError + number list list \<times> int list list) option" where
  "MLTrainer_prepare ds canvasHeight canvasWidth level fetched =
     (if length ds < 50 then Some (Inl NeedAtLeast50)
      else balanceDataset canvasHeight canvasWidth (finalDataset ds level fetched))"

definition minRequired :: "Level \<Rightarrow> nat" where
  "minRequired level =
     (if level = Finetuning then 400 else if level = Underfitting then 50 else 200)"

text \<open>
  \<^verbatim>\<open>GameEngine.trainModel\<close>, as one step. \<open>fitted\<close> is the model TensorFlow.js returns
  after the shuffle, the split and the fit of the balanced set; the trainer returns no
  feature statistics.
\<close>

definition trainModel :: "string option \<Rightarrow> tfmodel \<Rightarrow> GameEngine \<Rightarrow> GameEngine" where
  "trainModel fetched fitted s =
     (if length (dataset s) < minRequired (currentLevel s) then s
      else
        (case MLTrainer_prepare (dataset s) (canvas_height s) (canvas_width s)
                (currentLevel s) fetched of
           Some (Inr balanced) \<Rightarrow> s\<lparr>model := Some fitted, featureStats := None\<rparr>
         | _ \<Rightarrow> s))"

subsection \<open>Sessions\<close>

text \<open>Everything that can happen to an engine, and a session as a list of such events.\<close>

datatype command =
    SetLevel Level
  | KeyDown string int real
  | KeyUp string
  | Click int real
  | Tick
  | Prediction real
  | Frame real int
  | TimerFired real
  | StartRecording
  | PauseRecording
  | ResumeRecording
  | ClearDataset
  | UploadCSV string
  | TrainModel "string option" tfmodel
  | StartAI real
  | StopAI int
  | Restart
  | Pause
  | Resume

fun exec :: "command \<Rightarrow> GameEngine \<Rightarrow> GameEngine" where
  "exec (SetLevel l) s = setLevel l s"
| "exec (KeyDown k now rnd) s = keydown k now rnd s"
| "exec (KeyUp k) s = keyup k s"
| "exec (Click now rnd) s = click now rnd s"
| "exec Tick s = dataCollectionTick s"
| "exec (Prediction pred) s = makeAIPrediction_then pred s"
| "exec (Frame rnd now) s = update rnd now s"
| "exec (TimerFired rnd) s = restartTimerFired rnd s"
| "exec StartRecording s = startRecording s"
| "exec PauseRecording s = pauseRecording s"
| "exec ResumeRecording s = resumeRecording s"
| "exec ClearDataset s = clearDataset s"
| "exec (UploadCSV t) s = snd (uploadCSV t s)"
| "exec (TrainModel fetched fitted) s = trainModel fetched fitted s"
| "exec (StartAI rnd) s = startAI rnd s"
| "exec (StopAI now) s = stopAI now s"
| "exec Restart s = restart s"
| "exec Pause s = pause s"
| "exec Resume s = resume s"

fun run :: "command list \<Rightarrow> GameEngine \<Rightarrow> GameEngine" where
  "run [] s = s"
| "run (c # cs) s = run cs (exec c s)"

subsection \<open>Predicates and example sessions used by the theorems\<close>

text \<open>
  A tick records when the engine is not paused, the round is being played and has
  started, recording is on, and the cap of the underfitting level is not reached.
\<close>

definition recordingActive :: "GameEngine \<Rightarrow> bool" where
  "recordingActive s \<longleftrightarrow>
     \<not> isPaused s \<and> state s = Playing \<and> isRecording s \<and> gameStarted s \<and>
     \<not> (currentLevel s = Underfitting \<and> 50 \<le> length (dataset s))"

text \<open>Events other than a CSV import and a level switch.\<close>

definition recordingDriven :: "command \<Rightarrow> bool" where
  "recordingDriven c = (case c of UploadCSV t \<Rightarrow> False | SetLevel l \<Rightarrow> False | _ \<Rightarrow> True)"

definition isTraining :: "command \<Rightarrow> bool" where
  "isTraining c = (case c of TrainModel f m \<Rightarrow> True | _ \<Rightarrow> False)"

text \<open>A 400 x 600 engine: the player starts a round, starts recording and jumps.\<close>

definition startedRound :: GameEngine where
  "startedRound = run [Click 0 0.5, StartRecording, Click 100 0.5] (GameEngine_new 400 600)"

text \<open>
  That round after a recording tick, a pause of the recording during which the player
  jumps, and the resumption of the recording.
\<close>

definition resumedRound :: GameEngine where
  "resumedRound =
     run [Tick, PauseRecording, Tick, Tick, Tick, Click 450 (1 / 2), Tick, Tick, ResumeRecording]
       startedRound"

text \<open>The same in the underfitting level, and that round after 51 recording ticks.\<close>

definition underfitRound :: GameEngine where
  "underfitRound =
     run [SetLevel Underfitting, Click 0 0.5, StartRecording, Click 100 0.5] (GameEngine_new 400 600)"

definition capState :: GameEngine where
  "capState = run (replicate 51 Tick) underfitRound"

definition capInv :: "nat \<Rightarrow> GameEngine \<Rightarrow> bool" where
  "capInv n s \<longleftrightarrow>
     \<not> isPaused s \<and> state s = Playing \<and> isRecording s \<and> gameStarted s \<and>
     currentLevel s = Underfitting \<and> length (dataset s) = n \<and> dataBuffer s \<noteq> None"

text \<open>An engine that holds a trained model, and the same after a switch to the
  overfitting level.\<close>

definition trainedEngine :: GameEngine where
  "trainedEngine = (GameEngine_new 400 600)\<lparr>model := Some (TrainedModel 1)\<rparr>"

definition overfitAI :: GameEngine where
  "overfitAI = setLevel Overfitting trainedEngine"

text \<open>A round after its first jump and one frame: one pipe, none behind it.\<close>

definition firstFrame :: GameEngine where
  "firstFrame = run [Click 0 0.5, Click 100 0.5, Frame 0.5 116] (GameEngine_new 400 600)"

text \<open>
  Rounding to two decimals as \<^verbatim>\<open>toFixed(2)\<close> does it: to the nearest multiple of 0.01 of
  the magnitude, a tie going up, the sign kept.
\<close>

definition round2 :: "real \<Rightarrow> real" where
  "round2 x =
     (if x < 0 then - (real_of_int \<lfloor>- x * 100 + 1 / 2\<rfloor> / 100)
      else real_of_int \<lfloor>x * 100 + 1 / 2\<rfloor> / 100)"

definition roundNumber :: "number \<Rightarrow> number" where
  "roundNumber v = (case v of Num x \<Rightarrow> Num (round2 x) | _ \<Rightarrow> v)"

definition roundRow :: "GameData \<Rightarrow> GameData" where
  "roundRow d =
     d\<lparr>row_y := roundNumber (row_y d), row_vel := roundNumber (row_vel d),
       row_dist := roundNumber (row_dist d), mid1 := roundNumber (mid1 d),
       mid2 := roundNumber (mid2 d)\<rparr>"

text \<open>
  A finite value that the export can print. A double of magnitude \<open>10^21\<close> or more is an
  integer; the reals of the model are asked to be so as well.
\<close>

definition exportableNumber :: "number \<Rightarrow> bool" where
  "exportableNumber v =
     (case v of Num x \<Rightarrow> \<bar>x\<bar> < 10 ^ 21 \<or> x = real_of_int \<lfloor>x\<rfloor> | _ \<Rightarrow> False)"

text \<open>A row with such fields and an integer label of magnitude below \<open>10^21\<close>.\<close>

definition exportableRow :: "GameData \<Rightarrow> bool" where
  "exportableRow d \<longleftrightarrow>
     (case pressed d of Some p \<Rightarrow> \<bar>p\<bar> < 10 ^ 21 | None \<Rightarrow> False) \<and>
     exportableNumber (row_y d) \<and> exportableNumber (row_vel d) \<and>
     exportableNumber (row_dist d) \<and> exportableNumber (mid1 d) \<and> exportableNumber (mid2 d)"

text \<open>
  A row of the data model: the label is 0 or 1 (\<^verbatim>\<open>pressed: 0 | 1\<close>, written by the
  recorder as \<^verbatim>\<open>jumpScheduled ? 1 : 0\<close>) and the five fields are finite.
\<close>

definition finiteRow :: "GameData \<Rightarrow> bool" where
  "finiteRow d \<longleftrightarrow>
     (pressed d = Some 0 \<or> pressed d = Some 1) \<and>
     exportableNumber (row_y d) \<and> exportableNumber (row_vel d) \<and>
     exportableNumber (row_dist d) \<and> exportableNumber (mid1 d) \<and> exportableNumber (mid2 d)"

text \<open>The characters of a printed field.\<close>

definition printedChar :: "char \<Rightarrow> bool" where
  "printedChar c \<longleftrightarrow> isDigit c \<or> c \<in> set ''.-e+''"

text \<open>A small recording.\<close>

definition exampleRecording :: GameEngine where
  "exampleRecording =
     (GameEngine_new 400 600)
       \<lparr>dataset :=
          [\<lparr>pressed = Some 1, row_y = Num 295.2, row_vel = Num (- 4.806), row_dist = Num 348,
            mid1 = Num 3.14159, mid2 = Num 300\<rparr>,
           \<lparr>pressed = Some 0, row_y = Num 290.595, row_vel = Num (- 0.004),
            row_dist = Num (1234 * 10 ^ 18), mid1 = Num 3.14159, mid2 = Num 300\<rparr>]\<rparr>"

text \<open>
  A dataset of 82 rows: 47 without a jump, numbered by their first field, then 35 with
  a jump.
\<close>

definition exampleRow :: "int \<Rightarrow> nat \<Rightarrow> GameData" where
  "exampleRow l i =
     \<lparr>pressed = Some l, row_y = Num (real i), row_vel = Num 0, row_dist = Num 0, mid1 = Num 0,
      mid2 = Num 0\<rparr>"

definition skewedDataset :: "GameData list" where
  "skewedDataset = map (exampleRow 0) [0..<47] @ map (exampleRow 1) [0..<35]"

section \<open>Properties\<close>

subsection \<open>What each operation leaves alone\<close>

lemma getNextPipe_dataset:
  "getNextPipe n (s\<lparr>dataset := d\<rparr>) = getNextPipe n s"
  by (simp add: getNextPipe_def)

lemma getCurrentData_dataset [simp]:
  "getCurrentData (s\<lparr>dataset := d\<rparr>) = getCurrentData s"
  by (simp add: getCurrentData_def getNextPipe_dataset Let_def cong: option.case_cong)

lemma endGame_keeps:
  "model (endGame now s) = model s" "dataset (endGame now s) = dataset s"
  "currentLevel (endGame now s) = currentLevel s"
  by (simp_all add: endGame_def Let_def)

lemma startGame_keeps:
  "model (startGame rnd s) = model s" "dataset (startGame rnd s) = dataset s"
  "currentLevel (startGame rnd s) = currentLevel s"
  by (simp_all add: startGame_def)

lemma physicsStep_keeps:
  "model (fst (physicsStep rnd s)) = model s" "dataset (fst (physicsStep rnd s)) = dataset s"
  "currentLevel (fst (physicsStep rnd s)) = currentLevel s"
  by (simp_all add: physicsStep_def Let_def case_prod_beta)

lemma hoverStep_keeps:
  "model (hoverStep s) = model s" "dataset (hoverStep s) = dataset s"
  "currentLevel (hoverStep s) = currentLevel s"
  by (simp_all add: hoverStep_def Let_def)

lemma handleInput_keeps:
  "model (handleInput s) = model s" "dataset (handleInput s) = dataset s"
  "currentLevel (handleInput s) = currentLevel s"
  by (simp_all add: handleInput_def)

lemma update_keeps:
  "model (update rnd now s) = model s" "dataset (update rnd now s) = dataset s"
  "currentLevel (update rnd now s) = currentLevel s"
  by (simp_all add: update_def Let_def case_prod_beta endGame_keeps physicsStep_keeps
      hoverStep_keeps handleInput_keeps)

lemma keydown_keeps:
  "model (keydown k now rnd s) = model s" "dataset (keydown k now rnd s) = dataset s"
  "currentLevel (keydown k now rnd s) = currentLevel s"
  by (simp_all add: keydown_def Let_def startGame_keeps)

lemma keyup_keeps:
  "model (keyup k s) = model s" "dataset (keyup k s) = dataset s"
  "currentLevel (keyup k s) = currentLevel s"
  by (simp_all add: keyup_def Let_def)

lemma click_keeps:
  "model (click now rnd s) = model s" "dataset (click now rnd s) = dataset s"
  "currentLevel (click now rnd s) = currentLevel s"
  by (simp_all add: click_def startGame_keeps)

lemma recordTick_keeps:
  "model (recordTick s) = model s" "currentLevel (recordTick s) = currentLevel s"
  by (simp_all add: recordTick_def pauseRecording_def Let_def split: option.splits)

lemma tick_keeps:
  "model (dataCollectionTick s) = model s"
  "currentLevel (dataCollectionTick s) = currentLevel s"
  by (simp_all add: dataCollectionTick_def Let_def makeAIPrediction_def recordTick_keeps)

lemma prediction_keeps:
  "model (makeAIPrediction_then p s) = model s"
  "dataset (makeAIPrediction_then p s) = dataset s"
  "currentLevel (makeAIPrediction_then p s) = currentLevel s"
  by (simp_all add: makeAIPrediction_then_def Let_def)

lemma timer_keeps:
  "model (restartTimerFired rnd s) = model s" "dataset (restartTimerFired rnd s) = dataset s"
  "currentLevel (restartTimerFired rnd s) = currentLevel s"
  by (simp_all add: restartTimerFired_def startGame_keeps)

lemma startAI_keeps:
  "model (startAI rnd s) = model s" "dataset (startAI rnd s) = dataset s"
  "currentLevel (startAI rnd s) = currentLevel s"
  by (simp_all add: startAI_def Let_def startGame_keeps)

lemma stopAI_keeps:
  "model (stopAI now s) = model s" "dataset (stopAI now s) = dataset s"
  "currentLevel (stopAI now s) = currentLevel s"
  by (simp_all add: stopAI_def Let_def endGame_keeps)

lemma pause_resume_keeps:
  "model (pause s) = model s" "dataset (pause s) = dataset s"
  "currentLevel (pause s) = currentLevel s"
  "model (resume s) = model s" "dataset (resume s) = dataset s"
  "currentLevel (resume s) = currentLevel s"
  by (simp_all add: pause_def resume_def Let_def split: option.splits)

lemma uploadCSV_keeps:
  "model (snd (uploadCSV t s)) = model s"
  "currentLevel (snd (uploadCSV t s)) = currentLevel s"
  by (simp_all add: uploadCSV_def Let_def)

lemmas keeps = endGame_keeps startGame_keeps update_keeps keydown_keeps keyup_keeps click_keeps
  tick_keeps prediction_keeps timer_keeps startAI_keeps stopAI_keeps pause_resume_keeps
  uploadCSV_keeps

lemma run_snoc: "run (cs @ [c]) s = exec c (run cs s)"
  by (induction cs arbitrary: s) simp_all

subsection \<open>The recording tick\<close>

lemma tick_active:
  assumes "recordingActive s"
  shows "dataCollectionTick s =
     (let s1 = s\<lparr>dataset := dataset s @ (case dataBuffer s of None \<Rightarrow> []
                 | Some b \<Rightarrow> [b\<lparr>pressed := Some (if jumpScheduled s then 1 else 0)\<rparr>]),
                dataBuffer := Some (getCurrentData s), jumpScheduled := False\<rparr>
      in if isAI s \<and> model s \<noteq> None then makeAIPrediction s1 else s1)"
  using assms
  by (auto simp: recordingActive_def dataCollectionTick_def recordTick_def Let_def
      makeAIPrediction_def split: option.splits)

lemma tick_active_fields:
  assumes "recordingActive s"
  shows "dataset (dataCollectionTick s) = dataset s @ (case dataBuffer s of None \<Rightarrow> []
                 | Some b \<Rightarrow> [b\<lparr>pressed := Some (if jumpScheduled s then 1 else 0)\<rparr>])"
    and "dataBuffer (dataCollectionTick s) = Some (getCurrentData s)"
    and "jumpScheduled (dataCollectionTick s) = False"
  by (simp_all add: tick_active[OF assms] Let_def makeAIPrediction_def)

lemma startedRound_fields:
  "\<not> isPaused startedRound" "state startedRound = Playing" "isRecording startedRound"
  "gameStarted startedRound" "\<not> isAI startedRound" "currentLevel startedRound = Finetuning"
  "dataset startedRound = []" "dataBuffer startedRound = None"
  by (simp_all add: startedRound_def GameEngine_new_def click_def canStart_def
      startGame_def startRecording_def gameOverDelay_def)

lemma startedRound_active: "recordingActive startedRound"
  by (simp add: recordingActive_def startedRound_fields)

lemma capInv_tick:
  assumes "capInv n s" "n < 50"
  shows "capInv (Suc n) (dataCollectionTick s)"
proof -
  from assms have a: "recordingActive s" by (simp add: capInv_def recordingActive_def)
  from assms show ?thesis
    by (auto simp: capInv_def tick_active[OF a] Let_def makeAIPrediction_def)
qed

lemma underfitRound_first_tick: "capInv 0 (dataCollectionTick underfitRound)"
proof -
  have f: "\<not> isPaused underfitRound" "state underfitRound = Playing" "isRecording underfitRound"
    "gameStarted underfitRound" "currentLevel underfitRound = Underfitting"
    "dataset underfitRound = []" "dataBuffer underfitRound = None"
    by (simp_all add: underfitRound_def GameEngine_new_def setLevel_def click_def canStart_def
        startGame_def startRecording_def gameOverDelay_def)
  then have a: "recordingActive underfitRound" by (simp add: recordingActive_def)
  show ?thesis using f by (simp add: capInv_def tick_active[OF a] Let_def makeAIPrediction_def)
qed

lemma capInv_run:
  "n \<le> 50 \<Longrightarrow> capInv n (run (replicate (Suc n) Tick) underfitRound)"
proof (induction n)
  case 0
  then show ?case using underfitRound_first_tick by simp
next
  case (Suc n)
  then have "capInv n (run (replicate (Suc n) Tick) underfitRound)" by simp
  then have "capInv (Suc n) (dataCollectionTick (run (replicate (Suc n) Tick) underfitRound))"
    using Suc.prems by (simp add: capInv_tick)
  moreover have "replicate (Suc (Suc n)) Tick = replicate (Suc n) Tick @ [Tick]"
    by (metis replicate_append_same replicate_Suc)
  ultimately show ?case by (simp only: run_snoc exec.simps)
qed

lemma capState_inv: "capInv 50 capState"
  using capInv_run[of 50] by (simp add: capState_def)

text \<open>
  Claim C1, as the spec states it: whenever recording is active and the round has
  started, the tick pushes the buffered row. It fails at the cap of the underfitting
  level: after 51 recording ticks of an underfitting round the dataset holds 50 rows and
  a row is buffered, recording is on and the round has started, and the next tick pushes
  nothing, keeps the buffer and only pauses recording.
\<close>

theorem cap_tick_pushes_nothing:
  "isRecording capState \<and> gameStarted capState \<and> state capState = Playing
   \<and> \<not> isPaused capState \<and> dataBuffer capState \<noteq> None \<and> length (dataset capState) = 50
   \<and> dataset (dataCollectionTick capState) = dataset capState
   \<and> dataBuffer (dataCollectionTick capState) = dataBuffer capState
   \<and> \<not> isRecording (dataCollectionTick capState)"
  using capState_inv
  by (simp add: capInv_def dataCollectionTick_def recordTick_def pauseRecording_def Let_def
      makeAIPrediction_def)

text \<open>
  Claim C1, amended: while the engine is not paused, the round is being played and has
  started, recording is on and the underfitting cap is not reached, the tick appends the
  row buffered by the tick before (when there is one) with \<open>pressed\<close> set to 1 exactly
  when a jump was scheduled since, buffers a fresh snapshot and clears the jump flag.
  Hence for two such ticks in a row, with the dataset and the buffer untouched in
  between, the second appends the snapshot taken at the first, labelled with the jump
  flag raised between the two: the label lags its features by one tick.
\<close>

theorem label_lag:
  assumes "recordingActive s"
  shows "dataset (dataCollectionTick s) =
           dataset s @ (case dataBuffer s of None \<Rightarrow> []
              | Some b \<Rightarrow> [b\<lparr>pressed := Some (if jumpScheduled s then 1 else 0)\<rparr>])
         \<and> dataBuffer (dataCollectionTick s) = Some (getCurrentData s)
         \<and> jumpScheduled (dataCollectionTick s) = False
         \<and> (\<forall>s'. recordingActive s' \<and> dataBuffer s' = dataBuffer (dataCollectionTick s)
                  \<and> dataset s' = dataset (dataCollectionTick s)
              \<longrightarrow> dataset (dataCollectionTick s') =
                    dataset (dataCollectionTick s)
                      @ [(getCurrentData s)\<lparr>pressed := Some (if jumpScheduled s' then 1 else 0)\<rparr>])"
proof -
  note f = tick_active_fields[OF assms]
  have "dataset (dataCollectionTick s') =
          dataset (dataCollectionTick s)
            @ [(getCurrentData s)\<lparr>pressed := Some (if jumpScheduled s' then 1 else 0)\<rparr>]"
    if a: "recordingActive s'" and b: "dataBuffer s' = dataBuffer (dataCollectionTick s)"
      and d: "dataset s' = dataset (dataCollectionTick s)" for s'
    using tick_active_fields(1)[OF a] b d f(2) by simp
  with f show ?thesis by blast
qed

theorem label_lag_witness:
  "recordingActive startedRound
   \<and> dataset (dataCollectionTick (click 150 0.5 (dataCollectionTick startedRound)))
       = [(getCurrentData startedRound)\<lparr>pressed := Some 1\<rparr>]"
proof -
  let ?s1 = "dataCollectionTick startedRound"
  note a = startedRound_active
  note sr = startedRound_fields
  note f = tick_active_fields[OF a]
  have t: "\<not> isPaused ?s1 \<and> state ?s1 = Playing \<and> isRecording ?s1 \<and> gameStarted ?s1
      \<and> \<not> isAI ?s1 \<and> currentLevel ?s1 = Finetuning"
    by (simp add: tick_active[OF a] Let_def sr)
  have c: "recordingActive (click 150 0.5 ?s1) \<and> dataBuffer (click 150 0.5 ?s1) = dataBuffer ?s1
      \<and> dataset (click 150 0.5 ?s1) = dataset ?s1 \<and> jumpScheduled (click 150 0.5 ?s1)"
    using t by (simp add: click_def recordingActive_def)
  show ?thesis
    using label_lag[OF a] c a f sr by simp
qed

lemma paused_tick: "\<not> isRecording s \<Longrightarrow> \<not> isAI s \<Longrightarrow> dataCollectionTick s = s"
  by (simp add: dataCollectionTick_def recordTick_def Let_def)

text \<open>
  The buffer survives a pause of the recording: the first tick after the resumption
  appends the snapshot taken before the pause, labelled with a jump made during the
  pause, several ticks after the snapshot.
\<close>

lemma stale_row_after_resume:
  "recordingActive resumedRound
   \<and> dataBuffer resumedRound = Some (getCurrentData startedRound)
   \<and> dataset (dataCollectionTick resumedRound) = [(getCurrentData startedRound)\<lparr>pressed := Some 1\<rparr>]"
proof -
  let ?s1 = "dataCollectionTick startedRound"
  note a = startedRound_active
  note sr = startedRound_fields
  have t: "?s1 = startedRound\<lparr>dataBuffer := Some (getCurrentData startedRound),
      jumpScheduled := False\<rparr>"
    by (simp add: tick_active[OF a] Let_def sr)
  let ?p = "pauseRecording ?s1"
  have p: "\<not> isRecording ?p" "\<not> isAI ?p" by (simp_all add: t pauseRecording_def sr)
  let ?c = "click 450 (1 / 2) ?p"
  have c: "?c = ?p\<lparr>bird := (bird ?p)\<lparr>vel_y := jumpStrength\<rparr>, jumpScheduled := True,
      gameStarted := True\<rparr>"
    by (simp add: click_def t pauseRecording_def sr)
  have pc: "\<not> isRecording ?c" "\<not> isAI ?c" by (subst c, simp add: p)+
  have r: "resumedRound = resumeRecording ?c"
    by (simp add: resumedRound_def paused_tick[OF p] paused_tick[OF pc])
  have f: "recordingActive resumedRound" "dataBuffer resumedRound = Some (getCurrentData startedRound)"
    "dataset resumedRound = []" "jumpScheduled resumedRound"
    unfolding r c by (simp_all add: t resumeRecording_def pauseRecording_def recordingActive_def sr)
  from tick_active_fields(1)[OF f(1)] f show ?thesis by simp
qed

subsection \<open>The cap of the underfitting level\<close>

lemma tick_dataset_cap:
  assumes "currentLevel s = Underfitting" "length (dataset s) \<le> 50"
  shows "length (dataset (dataCollectionTick s)) \<le> 50"
  using assms
  by (simp add: dataCollectionTick_def recordTick_def pauseRecording_def Let_def
      makeAIPrediction_def split: option.splits)

lemma exec_cap:
  assumes "recordingDriven c" "currentLevel s = Underfitting" "length (dataset s) \<le> 50"
  shows "currentLevel (exec c s) = Underfitting \<and> length (dataset (exec c s)) \<le> 50"
  using assms
  by (cases c) (simp_all add: recordingDriven_def keeps tick_dataset_cap startRecording_def
      pauseRecording_def resumeRecording_def clearDataset_def restart_def trainModel_def
      split: option.splits sum.splits)

lemma run_cap:
  assumes "\<forall>c\<in>set cs. recordingDriven c" "currentLevel s = Underfitting"
    "length (dataset s) \<le> 50"
  shows "currentLevel (run cs s) = Underfitting \<and> length (dataset (run cs s)) \<le> 50"
  using assms
proof (induction cs arbitrary: s)
  case Nil
  then show ?case by simp
next
  case (Cons c cs)
  from Cons.prems have "currentLevel (exec c s) = Underfitting \<and> length (dataset (exec c s)) \<le> 50"
    by (simp add: exec_cap)
  with Cons show ?case by simp
qed

text \<open>
  Claim C6: in the underfitting level a dataset of at most 50 rows stays at most 50 rows
  long through every session of ticks, frames, inputs and controls (everything but a CSV
  import and a level switch); and a tick that fires at 50 rows while recording is active
  appends nothing and pauses recording.
\<close>

theorem underfitting_cap:
  assumes "currentLevel s = Underfitting" and "length (dataset s) \<le> 50"
    and "\<forall>c\<in>set cs. recordingDriven c"
  shows "length (dataset (run cs s)) \<le> 50
       \<and> (length (dataset s) = 50 \<and> isRecording s \<and> gameStarted s \<and> state s = Playing
            \<and> \<not> isPaused s
          \<longrightarrow> dataset (dataCollectionTick s) = dataset s \<and> \<not> isRecording (dataCollectionTick s))"
  using run_cap[OF assms(3) assms(1) assms(2)] assms(1)
  by (auto simp: dataCollectionTick_def recordTick_def pauseRecording_def makeAIPrediction_def
      Let_def)

theorem underfitting_cap_witness:
  "length (dataset capState) = 50
   \<and> length (dataset (run (replicate 60 Tick) capState)) \<le> 50
   \<and> dataset (dataCollectionTick capState) = dataset capState
   \<and> \<not> isRecording (dataCollectionTick capState)"
  using capState_inv underfitting_cap[of capState "replicate 60 Tick"]
  by (simp add: capInv_def recordingDriven_def)

subsection \<open>The model reference\<close>

lemma exec_model_None:
  assumes "\<not> isTraining c" "model s = None"
  shows "model (exec c s) = None"
  using assms
  by (cases c) (simp_all add: isTraining_def keeps setLevel_def startRecording_def
      pauseRecording_def resumeRecording_def clearDataset_def restart_def)

lemma run_model_None:
  assumes "\<forall>c\<in>set cs. \<not> isTraining c" "model s = None"
  shows "model (run cs s) = None"
  using assms by (induction cs arbitrary: s) (auto simp: exec_model_None)

text \<open>
  Claim C4, as the spec states it: after any call to \<^verbatim>\<open>setLevel\<close> the model is null.
  It fails: \<^verbatim>\<open>setLevel\<close> writes the level, the fixed gap centre and the recording flag,
  and an engine that holds a model still holds it afterwards.
\<close>

theorem setLevel_keeps_model:
  "model trainedEngine = Some (TrainedModel 1)
   \<and> model (setLevel Underfitting trainedEngine) = Some (TrainedModel 1)"
  by (simp add: setLevel_def trainedEngine_def)

text \<open>
  Claim C4, amended: after any call to \<^verbatim>\<open>restart\<close> the model is null, and it stays null
  through every session without a training run; \<^verbatim>\<open>setLevel\<close> leaves the model as it
  was.
\<close>

theorem model_invalidation:
  assumes "\<forall>c\<in>set cs. \<not> isTraining c"
  shows "model (run cs (restart s)) = None \<and> model (setLevel l s) = model s"
proof -
  have "model (restart s) = None" by (simp add: restart_def)
  then show ?thesis using assms by (simp add: run_model_None setLevel_def)
qed

theorem model_invalidation_witness:
  "model (run [SetLevel Overfitting, Click 0 0.5, Tick, StartAI 0.5] (restart trainedEngine)) = None
   \<and> model (setLevel Overfitting trainedEngine) = model trainedEngine"
  using model_invalidation[of "[SetLevel Overfitting, Click 0 0.5, Tick, StartAI 0.5]"
      trainedEngine Overfitting]
  by (simp add: isTraining_def)

subsection \<open>The gap centre of a spawned pipe\<close>

lemma human_overfitting_pinned:
  assumes "currentLevel s = Overfitting" "\<not> isAI s"
  shows "map gapCenter (pipes (startGame rnd s)) = [fixedGapCenter s]"
    and "gapCenter (spawnPipe rnd s) = fixedGapCenter s"
  using assms by (simp_all add: startGame_def spawnPipe_def Pipe_new_def)

lemma random_gap_elsewhere:
  assumes "currentLevel s \<noteq> Overfitting"
  shows "map gapCenter (pipes (startGame rnd s)) = [rnd * (canvas_height s - 300) + 150]"
    and "gapCenter (spawnPipe rnd s) = rnd * (canvas_height s - 300) + 150"
  using assms by (simp_all add: startGame_def spawnPipe_def Pipe_new_def)

lemma ai_spawn_random:
  assumes "isAI s"
  shows "gapCenter (spawnPipe rnd s) = rnd * (canvas_height s - 300) + 150"
  using assms by (simp add: spawnPipe_def Pipe_new_def)

text \<open>
  Claim C5: in the overfitting level the gap centre is pinned on the human path only, and
  random whenever the AI plays. \<^verbatim>\<open>update\<close> does so (the three lemmas above), but
  \<^verbatim>\<open>startGame\<close> does not look at the actor: when the AI starts a round in the
  overfitting level, the first pipe has the fixed gap centre 300 whatever
  \<^verbatim>\<open>Math.random()\<close> returns, while the pipes spawned later in that round are random.
\<close>

theorem ai_first_pipe_pinned:
  "isAI (startAI 0 overfitAI) \<and> currentLevel (startAI 0 overfitAI) = Overfitting
   \<and> map gapCenter (pipes (startAI 0 overfitAI)) = [300]
   \<and> map gapCenter (pipes (startAI 0.9 overfitAI)) = [300]
   \<and> gapCenter (spawnPipe 0 (startAI 0 overfitAI)) = 150
   \<and> gapCenter (spawnPipe 0.9 (startAI 0 overfitAI)) = 420"
  by (simp add: overfitAI_def trainedEngine_def GameEngine_new_def setLevel_def startAI_def
      startGame_def spawnPipe_def Pipe_new_def)

subsection \<open>Features at recording time and at inference time\<close>

lemma features_agree:
  assumes "getNextPipe 0 s = Some p" "getNextPipe 1 s = Some q"
  shows "rowFeatures (canvas_height s) (canvas_width s) (getCurrentData s) = getRawFeatures s"
  using assms by (simp add: rowFeatures_def getCurrentData_def getRawFeatures_def Let_def)

lemma firstFrame_eq:
  "firstFrame = (GameEngine_new 400 600)
     \<lparr>bird := \<lparr>pos_x = 50, pos_y = 295.2, vel_y = - 4.8, radius = 20\<rparr>,
      pipes := [\<lparr>pipe_x = 398, width = 40, gapSize = 200, gapCenter = 300, passed = False\<rparr>],
      state := Playing, keys := [ '' '' \<mapsto> False], nextPipeDist := 248,
      jumpScheduled := True, gameStarted := True\<rparr>"
  by (simp add: firstFrame_def GameEngine_new_def click_def canStart_def startGame_def
      update_def physicsStep_def Pipe_new_def handleInput_def outOfBounds_def collides_def
      pipe_top_def pipe_bottom_def Let_def gameOverDelay_def Bird_reset_def Bird_new_def
      gravity_def jumpStrength_def pipeSpeed_def pipeInterval_def endGame_def)

text \<open>
  Claim C2: the features recorded and normalised by the trainer equal the features of
  \<^verbatim>\<open>getRawFeatures\<close> on the same state. They do when a next and a next-next pipe exist
  (\<open>features_agree\<close>), but the defaults differ: \<^verbatim>\<open>getCurrentData\<close> records half the canvas
  height for a missing pipe, \<^verbatim>\<open>getRawFeatures\<close> substitutes the bird's own y. One frame
  into a round there is one pipe, the bird is at 295.2, and the fifth feature is 0.5 at
  recording time and 0.492 at inference time.
\<close>

theorem features_differ:
  "rowFeatures (canvas_height firstFrame) (canvas_width firstFrame) (getCurrentData firstFrame)
     = [Num 0.492, Num (- 0.48), Num 0.87, Num 0.5, Num 0.5]
   \<and> getRawFeatures firstFrame = [Num 0.492, Num (- 0.48), Num 0.87, Num 0.5, Num 0.492]"
  by (simp add: firstFrame_eq GameEngine_new_def rowFeatures_def
      getCurrentData_def getRawFeatures_def getNextPipe_def ndiv_def Let_def)

subsection \<open>The AI's decision\<close>

text \<open>
  Claim C7: the continuation of a prediction jumps exactly when the model's output exceeds
  0.7 (fewer than 10 ticks since the last jump) or 0.5 (otherwise); a jump sets the
  velocity to the jump strength and the counter to 0, no jump adds 1 to the counter. An
  output of 0.6 does not jump below 10 and jumps from 10 on.
\<close>

theorem adaptive_threshold:
  "makeAIPrediction_then pred s =
     (if model s = None then s
      else if (if framesSinceLastJump s < 10 then 0.7 else 0.5) < pred
      then s\<lparr>bird := (bird s)\<lparr>vel_y := jumpStrength\<rparr>, framesSinceLastJump := 0\<rparr>
      else s\<lparr>framesSinceLastJump := framesSinceLastJump s + 1\<rparr>)
   \<and> makeAIPrediction_then 0.6 s =
     (if model s = None then s
      else if framesSinceLastJump s < 10
      then s\<lparr>framesSinceLastJump := framesSinceLastJump s + 1\<rparr>
      else s\<lparr>bird := (bird s)\<lparr>vel_y := jumpStrength\<rparr>, framesSinceLastJump := 0\<rparr>)"
  by (simp add: makeAIPrediction_then_def Let_def)

subsection \<open>Stopping the AI\<close>

lemma endGame_ai_schedules_restart:
  "isAI s \<Longrightarrow> scheduledRestarts (endGame now s) = scheduledRestarts s + 1"
  by (simp add: endGame_def Let_def)

text \<open>
  Claim C10: \<^verbatim>\<open>stopAI\<close> in the playing state clears the AI flag and ends the round (state
  dead, time of death recorded, high score raised to the score when that is larger)
  without scheduling a restart; in any other state it only clears the AI flag.
\<close>

theorem stopAI_ends_round:
  "stopAI now s =
     (if state s = Playing
      then s\<lparr>isAI := False, state := Dead, gameOverTime := now,
             highScore := (if score s > highScore s then score s else highScore s)\<rparr>
      else s\<lparr>isAI := False\<rparr>)
   \<and> scheduledRestarts (stopAI now s) = scheduledRestarts s"
  by (simp add: stopAI_def endGame_def Let_def)

subsection \<open>Splitting and joining\<close>

lemma jsSplit_nonempty [simp]: "jsSplit c str \<noteq> []"
  by (induction str) (simp_all split: list.splits)

lemma jsJoin_jsSplit: "jsJoin [c] (jsSplit c str) = str"
proof (induction str)
  case Nil
  then show ?case by simp
next
  case (Cons x xs)
  obtain l ls where r: "jsSplit c xs = l # ls"
    by (cases "jsSplit c xs") simp_all
  with Cons show ?case by (cases ls) auto
qed

lemma jsSplit_noSep: "c \<notin> set str \<Longrightarrow> jsSplit c str = [str]"
  by (induction str) auto

lemma jsSplit_append: "c \<notin> set a \<Longrightarrow> jsSplit c (a @ c # b) = a # jsSplit c b"
  by (induction a) auto

lemma jsSplit_jsJoin:
  "ls \<noteq> [] \<Longrightarrow> \<forall>l\<in>set ls. c \<notin> set l \<Longrightarrow> jsSplit c (jsJoin [c] ls) = ls"
proof (induction ls)
  case Nil
  then show ?case by simp
next
  case (Cons l ls)
  show ?case
  proof (cases ls)
    case Nil
    with Cons.prems show ?thesis by (simp add: jsSplit_noSep)
  next
    case (Cons m ms)
    with Cons.prems Cons.IH have "jsSplit c (jsJoin [c] (m # ms)) = m # ms" by simp
    with Cons Cons.prems show ?thesis by (simp add: jsSplit_append)
  qed
qed

lemma jsTrim_Nil: "jsTrim l = [] \<Longrightarrow> \<forall>c\<in>set l. jsWhitespace c"
proof -
  assume "jsTrim l = []"
  then have "\<forall>c\<in>set (dropWhile jsWhitespace l). jsWhitespace c"
    by (simp add: jsTrim_def)
  moreover have "\<forall>c\<in>set (takeWhile jsWhitespace l). jsWhitespace c"
    by (auto dest: set_takeWhileD)
  moreover have "set l = set (takeWhile jsWhitespace l) \<union> set (dropWhile jsWhitespace l)"
    by (metis set_append takeWhile_dropWhile_id)
  ultimately show ?thesis by blast
qed

lemma blank_one_field: "jsTrim l = [] \<Longrightarrow> length (jsSplit (CHR '','') l) = 1"
proof -
  assume "jsTrim l = []"
  then have "\<forall>c\<in>set l. jsWhitespace c" by (rule jsTrim_Nil)
  moreover have "\<not> jsWhitespace (CHR '','')" by (simp add: jsWhitespace_def)
  ultimately have "CHR '','' \<notin> set l" by blast
  then show ?thesis by (simp add: jsSplit_noSep)
qed

lemma parseDataLines_filter:
  "parseDataLines ls =
     map (\<lambda>l. parseRow (jsSplit (CHR '','') l))
       (filter (\<lambda>l. length (jsSplit (CHR '','') l) = 6) ls)"
proof (induction ls)
  case Nil
  then show ?case by simp
next
  case (Cons l ls)
  show ?case
  proof (cases "jsTrim l = []")
    case True
    then have "length (jsSplit (CHR '','') l) = 1" by (rule blank_one_field)
    with True Cons show ?thesis by simp
  next
    case False
    with Cons show ?thesis by (simp add: Let_def)
  qed
qed

lemma header_check: "jsJoin '','' (jsSplit (CHR '','') h) = h"
  by (rule jsJoin_jsSplit)

text \<open>
  Claim C8: an import whose first line is not exactly the header is rejected and leaves
  the engine as it was; otherwise the rows are the lines after the first that split into
  six fields, each parsed by \<^verbatim>\<open>parseInt\<close> and \<^verbatim>\<open>parseFloat\<close>, in order, every other line
  (a blank line has one field) being skipped; when there is no such line the import is
  rejected and the engine is as it was, and otherwise the rows are appended.
\<close>

theorem csv_import:
  "uploadCSV t s =
     (let lines = jsSplit newline t;
          rows = map (\<lambda>l. parseRow (jsSplit (CHR '','') l))
                   (filter (\<lambda>l. length (jsSplit (CHR '','') l) = 6) (tl lines))
      in if hd lines \<noteq> csvHeader then (Some InvalidCSVFormat, s)
         else if rows = [] then (Some NoValidData, s)
         else (None, s\<lparr>dataset := dataset s @ rows\<rparr>))"
  by (simp add: uploadCSV_def Let_def header_check parseDataLines_filter)

lemmas parse_defs = parseRow_def parseInt_def parseFloat_def exponentPart_def dropSign_def
  isNegative_def isDigit_def isHexDigit_def jsWhitespace_def jsTrim_def parseNat_def parseHex_def
  digitVal_def hexVal_def Let_def

lemmas print_defs = rowLine_def pressedToString_def natToString_def toFixed2_def toFixedAbs_def
  dropTrailingZeros_def digitChar_def showNat.simps Let_def

theorem csv_import_witness:
  "uploadCSV (csvHeader @ [newline] @ ''1,295.20,-4.8,348,300,300'' @ [newline] @ [newline]
       @ ''0,1,2'' @ [newline] @ ''x,,1e2,-.5,Infinity,7px'') (GameEngine_new 400 600)
   = (None, (GameEngine_new 400 600)\<lparr>dataset :=
        [\<lparr>pressed = Some 1, row_y = Num 295.2, row_vel = Num (- 4.8), row_dist = Num 348,
          mid1 = Num 300, mid2 = Num 300\<rparr>,
         \<lparr>pressed = None, row_y = NaN, row_vel = Num 100, row_dist = Num (- 0.5),
          mid1 = PosInfinity, mid2 = Num 7\<rparr>]\<rparr>)
   \<and> uploadCSV (''pressed,y,vel,dist,mid1,mid2 '' @ [newline] @ ''1,2,3,4,5,6'') trainedEngine
       = (Some InvalidCSVFormat, trainedEngine)
   \<and> uploadCSV (csvHeader @ [newline] @ ''1,2,3,4,5'') trainedEngine
       = (Some NoValidData, trainedEngine)"
  unfolding csv_import
  by (simp add: csvHeader_def newline_def GameEngine_new_def parse_defs)

subsection \<open>Printing and parsing numbers\<close>

lemma isDigit_digitChar: "d < 10 \<Longrightarrow> isDigit (digitChar d)"
  unfolding isDigit_def digitChar_def
  by (auto simp: less_Suc_eq numeral_eq_Suc)

lemma digitVal_digitChar: "d < 10 \<Longrightarrow> digitVal (digitChar d) = d"
  unfolding digitVal_def digitChar_def
  by (auto simp: less_Suc_eq numeral_eq_Suc)

lemma showNat_digits: "c \<in> set (showNat n) \<Longrightarrow> isDigit c"
proof (induction n rule: showNat.induct)
  case (1 n)
  show ?case
  proof (cases "n < 10")
    case True
    with "1.prems" show ?thesis by (simp add: showNat.simps[of n] isDigit_digitChar)
  next
    case False
    with "1.prems" "1.IH" show ?thesis
      by (auto simp: showNat.simps[of n] isDigit_digitChar)
  qed
qed

lemma showNat_nonempty: "showNat n \<noteq> []"
  by (simp add: showNat.simps[of n])

lemma parseNat_snoc: "parseNat (ds @ [c]) = 10 * parseNat ds + digitVal c"
  by (simp add: parseNat_def)

lemma parseNat_append: "parseNat (a @ b) = parseNat a * 10 ^ length b + parseNat b"
proof (induction b rule: rev_induct)
  case Nil
  then show ?case by (simp add: parseNat_def)
next
  case (snoc c b)
  have "parseNat (a @ b @ [c]) = 10 * parseNat (a @ b) + digitVal c"
    using parseNat_snoc[of "a @ b" c] by simp
  with snoc show ?case by (simp add: parseNat_snoc algebra_simps)
qed

lemma parseNat_showNat: "parseNat (showNat n) = n"
proof (induction n rule: showNat.induct)
  case (1 n)
  show ?case
  proof (cases "n < 10")
    case True
    then show ?thesis by (simp add: showNat.simps[of n] parseNat_def digitVal_digitChar)
  next
    case False
    with "1.IH" show ?thesis
      by (simp add: showNat.simps[of n] parseNat_snoc digitVal_digitChar)
  qed
qed

lemma parseNat_zeros: "parseNat (replicate k (CHR ''0'') @ ds) = parseNat ds"
proof -
  have "parseNat (replicate k (CHR ''0'')) = 0"
  proof (induction k)
    case 0
    then show ?case by (simp add: parseNat_def)
  next
    case (Suc k)
    have "replicate (Suc k) (CHR ''0'') = replicate k (CHR ''0'') @ [CHR ''0'']"
      by (simp add: replicate_append_same)
    then have "parseNat (replicate (Suc k) (CHR ''0'')) = 10 * parseNat (replicate k (CHR ''0''))
        + digitVal (CHR ''0'')"
      by (simp only: parseNat_snoc)
    with Suc show ?case by (simp add: digitVal_def)
  qed
  then show ?thesis by (simp add: parseNat_append)
qed

lemma digit_not_special:
  assumes "isDigit c"
  shows "\<not> jsWhitespace c" "c \<noteq> CHR ''+''" "c \<noteq> CHR ''-''" "c \<noteq> CHR ''.''" "c \<noteq> CHR ''I''"
    "c \<noteq> CHR ''x''" "c \<noteq> CHR ''X''" "c \<noteq> CHR '',''" "c \<noteq> newline"
  using assms by (auto simp: isDigit_def jsWhitespace_def newline_def)

lemma printedChar_not_special:
  assumes "printedChar c"
  shows "\<not> jsWhitespace c" "c \<noteq> CHR '',''" "c \<noteq> newline"
  using assms by (auto simp: printedChar_def isDigit_def jsWhitespace_def newline_def)

lemma takeWhile_digits:
  assumes "\<forall>c\<in>set ds. isDigit c" "rest = [] \<or> \<not> isDigit (hd rest)"
  shows "takeWhile isDigit (ds @ rest) = ds" "dropWhile isDigit (ds @ rest) = rest"
proof -
  from assms(2) have "takeWhile isDigit rest = []" "dropWhile isDigit rest = rest"
    by (cases rest; simp)+
  with assms(1) show "takeWhile isDigit (ds @ rest) = ds" "dropWhile isDigit (ds @ rest) = rest"
    by (simp_all add: takeWhile_append2 dropWhile_append2)
qed

lemma parseFloat_decimal:
  assumes "ip \<noteq> []" "\<forall>c\<in>set ip. isDigit c" "\<forall>c\<in>set fp. isDigit c"
  shows "parseFloat (ip @ CHR ''.'' # fp)
           = Num (real (parseNat ip) + real (parseNat fp) / 10 ^ length fp)"
proof -
  let ?str = "ip @ CHR ''.'' # fp"
  from assms obtain d ip' where ip: "ip = d # ip'" and d: "isDigit d"
    by (cases ip) auto
  have s0: "dropWhile jsWhitespace ?str = ?str"
    using d by (simp add: ip digit_not_special)
  have s1: "dropSign ?str = ?str" "\<not> isNegative ?str"
    using d by (simp_all add: ip dropSign_def isNegative_def digit_not_special)
  have inf: "take 8 ?str \<noteq> ''Infinity''"
    using d by (simp add: ip digit_not_special)
  have tw: "takeWhile isDigit ?str = ip" "dropWhile isDigit ?str = CHR ''.'' # fp"
    using takeWhile_digits[of ip "CHR ''.'' # fp"] assms(2) by (simp_all add: isDigit_def)
  have tf: "takeWhile isDigit fp = fp" "dropWhile isDigit fp = []"
    using takeWhile_digits[of fp "[]"] assms(3) by simp_all
  show ?thesis
    unfolding parseFloat_def Let_def s0
    using inf assms(1) by (simp add: s1 tw tf exponentPart_def)
qed

lemma parseFloat_negative_decimal:
  assumes "ip \<noteq> []" "\<forall>c\<in>set ip. isDigit c" "\<forall>c\<in>set fp. isDigit c"
  shows "parseFloat (CHR ''-'' # ip @ CHR ''.'' # fp)
           = Num (- (real (parseNat ip) + real (parseNat fp) / 10 ^ length fp))"
proof -
  let ?str = "ip @ CHR ''.'' # fp"
  from assms obtain d ip' where ip: "ip = d # ip'" and d: "isDigit d"
    by (cases ip) auto
  have s0: "dropWhile jsWhitespace (CHR ''-'' # ?str) = CHR ''-'' # ?str"
    by (simp add: jsWhitespace_def)
  have s1: "dropSign (CHR ''-'' # ?str) = ?str" "isNegative (CHR ''-'' # ?str)"
    by (simp_all add: dropSign_def isNegative_def)
  have inf: "take 8 ?str \<noteq> ''Infinity''"
    using d by (simp add: ip digit_not_special)
  have tw: "takeWhile isDigit ?str = ip" "dropWhile isDigit ?str = CHR ''.'' # fp"
    using takeWhile_digits[of ip "CHR ''.'' # fp"] assms(2) by (simp_all add: isDigit_def)
  have tf: "takeWhile isDigit fp = fp" "dropWhile isDigit fp = []"
    using takeWhile_digits[of fp "[]"] assms(3) by simp_all
  show ?thesis
    unfolding parseFloat_def Let_def s0
    using inf assms(1) by (simp add: s1 tw tf exponentPart_def)
qed

lemma toFixedAbs_shape:
  assumes "0 \<le> x" "x < 10 ^ 21"
  shows "\<exists>ip fp. toFixedAbs x = ip @ CHR ''.'' # fp \<and> ip \<noteq> [] \<and> (\<forall>c\<in>set ip. isDigit c)
           \<and> (\<forall>c\<in>set fp. isDigit c) \<and> length fp = 2
           \<and> parseNat ip * 100 + parseNat fp = nat \<lfloor>x * 100 + 1 / 2\<rfloor>"
proof -
  define n where "n = nat \<lfloor>x * 100 + 1 / 2\<rfloor>"
  define m where "m = showNat n"
  define m' where "m' = (if length m \<le> 2 then replicate (3 - length m) (CHR ''0'') @ m else m)"
  define ip where "ip = take (length m' - 2) m'"
  define fp where "fp = drop (length m' - 2) m'"
  have len: "3 \<le> length m'" by (simp add: m'_def)
  have dig: "\<forall>c\<in>set m'. isDigit c"
    by (auto simp: m'_def m_def isDigit_def dest: showNat_digits)
  have val: "parseNat m' = n"
    by (simp add: m'_def m_def parseNat_zeros parseNat_showNat)
  have cat: "ip @ fp = m'" by (simp add: ip_def fp_def)
  have lfp: "length fp = 2" using len by (simp add: fp_def)
  have "ip \<noteq> []" using len by (auto simp: ip_def)
  moreover have "\<forall>c\<in>set ip. isDigit c" "\<forall>c\<in>set fp. isDigit c"
    using dig by (auto simp: ip_def fp_def dest: in_set_takeD in_set_dropD)
  moreover have "parseNat ip * 100 + parseNat fp = n"
    using parseNat_append[of ip fp] lfp by (simp add: cat val)
  moreover have "toFixedAbs x = ip @ CHR ''.'' # fp"
    using assms(2) by (simp add: toFixedAbs_def Let_def n_def m_def m'_def ip_def fp_def)
  ultimately show ?thesis using lfp n_def by blast
qed

lemma parseFloat_toFixedAbs:
  assumes "0 \<le> x" "x < 10 ^ 21"
  shows "parseFloat (toFixedAbs x) = Num (real_of_int \<lfloor>x * 100 + 1 / 2\<rfloor> / 100)"
    and "parseFloat (CHR ''-'' # toFixedAbs x) = Num (- (real_of_int \<lfloor>x * 100 + 1 / 2\<rfloor> / 100))"
proof -
  from toFixedAbs_shape[OF assms] obtain ip fp where
    s: "toFixedAbs x = ip @ CHR ''.'' # fp" and i: "ip \<noteq> []" "\<forall>c\<in>set ip. isDigit c"
    and f: "\<forall>c\<in>set fp. isDigit c" "length fp = 2"
    and v: "parseNat ip * 100 + parseNat fp = nat \<lfloor>x * 100 + 1 / 2\<rfloor>"
    by blast
  have nn: "0 \<le> \<lfloor>x * 100 + 1 / 2\<rfloor>" using assms(1) by simp
  have "real (parseNat ip) + real (parseNat fp) / 10 ^ length fp
          = real (parseNat ip * 100 + parseNat fp) / 100"
    by (simp add: f(2) field_simps)
  also have "\<dots> = real (nat \<lfloor>x * 100 + 1 / 2\<rfloor>) / 100"
    by (simp only: v)
  also have "\<dots> = real_of_int \<lfloor>x * 100 + 1 / 2\<rfloor> / 100"
    using nn by simp
  finally have e: "real (parseNat ip) + real (parseNat fp) / 10 ^ length fp
          = real_of_int \<lfloor>x * 100 + 1 / 2\<rfloor> / 100" .
  show "parseFloat (toFixedAbs x) = Num (real_of_int \<lfloor>x * 100 + 1 / 2\<rfloor> / 100)"
    by (simp only: s parseFloat_decimal[OF i f(1)] e)
  show "parseFloat (CHR ''-'' # toFixedAbs x) = Num (- (real_of_int \<lfloor>x * 100 + 1 / 2\<rfloor> / 100))"
    by (simp only: s parseFloat_negative_decimal[OF i f(1)] e)
qed

lemma showNat_hd_nonzero: "0 < n \<Longrightarrow> hd (showNat n) \<noteq> CHR ''0''"
proof (induction n rule: showNat.induct)
  case (1 n)
  show ?case
  proof (cases "n < 10")
    case True
    with "1.prems" have "digitChar n \<noteq> CHR ''0''"
      unfolding digitChar_def by (auto simp: less_Suc_eq numeral_eq_Suc)
    with True show ?thesis by (simp add: showNat.simps[of n])
  next
    case False
    then have "0 < n div 10" by simp
    with "1.IH" False have "hd (showNat (n div 10)) \<noteq> CHR ''0''" by simp
    with False show ?thesis by (simp add: showNat.simps[of n] showNat_nonempty)
  qed
qed

lemma dropTrailingZeros_split:
  "ds = dropTrailingZeros ds @ replicate (length ds - length (dropTrailingZeros ds)) (CHR ''0'')"
proof -
  let ?P = "\<lambda>c. c = CHR ''0''"
  let ?r = "rev ds"
  have "\<forall>c\<in>set (takeWhile ?P ?r). c = CHR ''0''" by (auto dest: set_takeWhileD)
  then have t: "takeWhile ?P ?r = replicate (length (takeWhile ?P ?r)) (CHR ''0'')"
    by (simp add: replicate_length_same)
  have "?r = takeWhile ?P ?r @ dropWhile ?P ?r" by simp
  then have "rev ?r = rev (dropWhile ?P ?r) @ rev (takeWhile ?P ?r)"
    by (metis rev_append)
  then have d: "ds = dropTrailingZeros ds @ rev (takeWhile ?P ?r)"
    by (simp add: dropTrailingZeros_def)
  have "rev (takeWhile ?P ?r) = replicate (length (takeWhile ?P ?r)) (CHR ''0'')"
    by (subst t) simp
  moreover have "length (takeWhile ?P ?r) = length ds - length (dropTrailingZeros ds)"
  proof -
    have "length ?r = length (takeWhile ?P ?r) + length (dropWhile ?P ?r)"
      by (metis length_append takeWhile_dropWhile_id)
    then show ?thesis by (simp add: dropTrailingZeros_def)
  qed
  ultimately show ?thesis using d by simp
qed

lemma dropTrailingZeros_hd:
  assumes "ds \<noteq> []" "hd ds \<noteq> CHR ''0''"
  shows "dropTrailingZeros ds \<noteq> []" "hd (dropTrailingZeros ds) = hd ds"
proof -
  let ?z = "replicate (length ds - length (dropTrailingZeros ds)) (CHR ''0'')"
  have s: "ds = dropTrailingZeros ds @ ?z" by (rule dropTrailingZeros_split)
  show n: "dropTrailingZeros ds \<noteq> []"
  proof
    assume e: "dropTrailingZeros ds = []"
    with s have "ds = replicate (length ds) (CHR ''0'')" by simp
    with assms(1) have "hd ds = CHR ''0''" by (metis hd_replicate length_0_conv)
    with assms(2) show False by simp
  qed
  from n have "hd (dropTrailingZeros ds @ ?z) = hd (dropTrailingZeros ds)" by simp
  with s show "hd (dropTrailingZeros ds) = hd ds" by simp
qed

lemma parseNat_Nil: "parseNat [] = 0"
  by (simp add: parseNat_def)

lemma parseNat_zeros_right: "parseNat (ds @ replicate z (CHR ''0'')) = parseNat ds * 10 ^ z"
  using parseNat_zeros[of z "[]"] by (simp add: parseNat_append parseNat_Nil)

lemma exponentPart_plus: "exponentPart (CHR ''e'' # CHR ''+'' # showNat k) = int k"
proof -
  have tw: "takeWhile isDigit (showNat k) = showNat k"
    using showNat_digits by (simp add: takeWhile_eq_all_conv)
  show ?thesis
    by (simp add: exponentPart_def dropSign_def isNegative_def Let_def tw parseNat_showNat
        showNat_nonempty)
qed

lemma parseFloat_exponent_only:
  assumes "isDigit d"
  shows "parseFloat (d # CHR ''e'' # CHR ''+'' # showNat k) = Num (real (digitVal d) * 10 ^ k)"
    and "parseFloat (CHR ''-'' # d # CHR ''e'' # CHR ''+'' # showNat k)
           = Num (- (real (digitVal d) * 10 ^ k))"
proof -
  let ?str = "d # CHR ''e'' # CHR ''+'' # showNat k"
  have s0: "dropWhile jsWhitespace ?str = ?str"
    using assms by (simp add: digit_not_special)
  have s0': "dropWhile jsWhitespace (CHR ''-'' # ?str) = CHR ''-'' # ?str"
    by (simp add: jsWhitespace_def)
  have s1: "dropSign ?str = ?str" "\<not> isNegative ?str" "dropSign (CHR ''-'' # ?str) = ?str"
    "isNegative (CHR ''-'' # ?str)"
    using assms by (simp_all add: dropSign_def isNegative_def digit_not_special)
  have inf: "take 8 ?str \<noteq> ''Infinity''"
    using assms by (simp add: digit_not_special)
  have e: "\<not> isDigit (CHR ''e'')" by (simp add: isDigit_def)
  have tw: "takeWhile isDigit ?str = [d]"
    "dropWhile isDigit ?str = CHR ''e'' # CHR ''+'' # showNat k"
    using assms e by simp_all
  have one: "parseNat [d] = digitVal d" by (simp add: parseNat_def)
  show "parseFloat ?str = Num (real (digitVal d) * 10 ^ k)"
    unfolding parseFloat_def Let_def s0 s1(1) tw
    using inf by (simp add: s1 e exponentPart_plus one parseNat_Nil)
  show "parseFloat (CHR ''-'' # ?str) = Num (- (real (digitVal d) * 10 ^ k))"
    unfolding parseFloat_def Let_def s0' s1(3) tw
    using inf by (simp add: s1 e exponentPart_plus one parseNat_Nil)
qed

lemma parseFloat_scientific:
  assumes "isDigit d" "\<forall>c\<in>set fp. isDigit c"
  shows "parseFloat (d # CHR ''.'' # fp @ CHR ''e'' # CHR ''+'' # showNat k)
           = Num ((real (digitVal d) + real (parseNat fp) / 10 ^ length fp) * 10 ^ k)"
    and "parseFloat (CHR ''-'' # d # CHR ''.'' # fp @ CHR ''e'' # CHR ''+'' # showNat k)
           = Num (- ((real (digitVal d) + real (parseNat fp) / 10 ^ length fp) * 10 ^ k))"
proof -
  let ?e = "CHR ''e'' # CHR ''+'' # showNat k"
  let ?str = "d # CHR ''.'' # fp @ ?e"
  have s0: "dropWhile jsWhitespace ?str = ?str"
    using assms(1) by (simp add: digit_not_special)
  have s0': "dropWhile jsWhitespace (CHR ''-'' # ?str) = CHR ''-'' # ?str"
    by (simp add: jsWhitespace_def)
  have s1: "dropSign ?str = ?str" "\<not> isNegative ?str" "dropSign (CHR ''-'' # ?str) = ?str"
    "isNegative (CHR ''-'' # ?str)"
    using assms(1) by (simp_all add: dropSign_def isNegative_def digit_not_special)
  have inf: "take 8 ?str \<noteq> ''Infinity''"
    using assms(1) by (simp add: digit_not_special)
  have e: "\<not> isDigit (CHR ''e'')" "\<not> isDigit (CHR ''.'')" by (simp_all add: isDigit_def)
  have tw: "takeWhile isDigit ?str = [d]" "dropWhile isDigit ?str = CHR ''.'' # fp @ ?e"
    using assms(1) e by simp_all
  have tf: "takeWhile isDigit (fp @ ?e) = fp" "dropWhile isDigit (fp @ ?e) = ?e"
    using takeWhile_digits[of fp ?e] assms(2) e by simp_all
  have one: "parseNat [d] = digitVal d" by (simp add: parseNat_def)
  show "parseFloat ?str
           = Num ((real (digitVal d) + real (parseNat fp) / 10 ^ length fp) * 10 ^ k)"
    unfolding parseFloat_def Let_def s0 s1(1) tw list.sel tf
    using inf by (simp add: s1 exponentPart_plus one)
  show "parseFloat (CHR ''-'' # ?str)
           = Num (- ((real (digitVal d) + real (parseNat fp) / 10 ^ length fp) * 10 ^ k))"
    unfolding parseFloat_def Let_def s0' s1(3) tw list.sel tf
    using inf by (simp add: s1 exponentPart_plus one)
qed

lemma parseFloat_natToString:
  assumes "10 ^ 21 \<le> n"
  shows "parseFloat (natToString n) = Num (real n)"
    and "parseFloat (CHR ''-'' # natToString n) = Num (- real n)"
    and "\<forall>c\<in>set (natToString n). isDigit c \<or> c = CHR ''.'' \<or> c = CHR ''e'' \<or> c = CHR ''+''"
proof -
  define ds where "ds = showNat n"
  define sig where "sig = dropTrailingZeros ds"
  define z where "z = length ds - length sig"
  from assms have pos: "0 < n" by (simp add: order.strict_trans2[of 0 "10 ^ 21"])
  have ne: "ds \<noteq> []" by (simp add: ds_def showNat_nonempty)
  have h: "hd ds \<noteq> CHR ''0''" using pos by (simp add: ds_def showNat_hd_nonzero)
  have signe: "sig \<noteq> []" using dropTrailingZeros_hd(1)[OF ne h] by (simp add: sig_def)
  then obtain d rest where sig: "sig = d # rest" by (cases sig) auto
  have split: "ds = sig @ replicate z (CHR ''0'')"
    unfolding sig_def z_def by (rule dropTrailingZeros_split)
  have dig: "\<forall>c\<in>set ds. isDigit c" using showNat_digits by (auto simp: ds_def)
  then have "\<forall>c\<in>set sig. isDigit c" by (subst (asm) split) simp
  then have d: "isDigit d" and r: "\<forall>c\<in>set rest. isDigit c" by (simp_all add: sig)
  have "parseNat ds = parseNat sig * 10 ^ z"
    by (subst split) (rule parseNat_zeros_right)
  then have val: "n = parseNat (d # rest) * 10 ^ z"
    by (simp add: ds_def parseNat_showNat sig)
  have "length ds = length sig + z" by (subst split) simp
  then have len: "length ds - Suc 0 = length rest + z" by (simp add: sig)
  have pn: "parseNat (d # rest) = digitVal d * 10 ^ length rest + parseNat rest"
    using parseNat_append[of "[d]" rest] by (simp add: parseNat_def)
  have str: "natToString n = (if rest = [] then [d] else d # CHR ''.'' # rest)
              @ CHR ''e'' # CHR ''+'' # showNat (length rest + z)"
    using assms
    by (simp add: natToString_def Let_def ds_def[symmetric] sig_def[symmetric] sig len)
  have k: "\<forall>c\<in>set (showNat (length rest + z)). isDigit c" using showNat_digits by blast
  show "\<forall>c\<in>set (natToString n). isDigit c \<or> c = CHR ''.'' \<or> c = CHR ''e'' \<or> c = CHR ''+''"
    using d r k by (auto simp: str)
  have v: "(real (digitVal d) + real (parseNat rest) / 10 ^ length rest) * 10 ^ (length rest + z)
             = real n"
    by (simp add: val pn power_add field_simps)
  show "parseFloat (natToString n) = Num (real n)"
  proof (cases "rest = []")
    case True
    with val pn have "real n = real (digitVal d) * 10 ^ z" by (simp add: parseNat_Nil)
    with True show ?thesis by (simp add: str parseFloat_exponent_only(1)[OF d])
  next
    case False
    then show ?thesis by (simp add: str parseFloat_scientific(1)[OF d r] v)
  qed
  show "parseFloat (CHR ''-'' # natToString n) = Num (- real n)"
  proof (cases "rest = []")
    case True
    with val pn have "real n = real (digitVal d) * 10 ^ z" by (simp add: parseNat_Nil)
    with True show ?thesis by (simp add: str parseFloat_exponent_only(2)[OF d])
  next
    case False
    then show ?thesis by (simp add: str parseFloat_scientific(2)[OF d r] v)
  qed
qed

lemma round2_of_int: "round2 (real_of_int k) = real_of_int k"
proof -
  have a: "\<lfloor>real_of_int k * 100 + 1 / 2\<rfloor> = k * 100"
  proof -
    have "real_of_int k * 100 + 1 / 2 = real_of_int (k * 100) + 1 / 2" by simp
    then show ?thesis by (simp only: floor_add_int[symmetric] add.commute[of "real_of_int (k * 100)"]) simp
  qed
  have b: "\<lfloor>- real_of_int k * 100 + 1 / 2\<rfloor> = - k * 100"
  proof -
    have "- real_of_int k * 100 + 1 / 2 = real_of_int (- k * 100) + 1 / 2" by simp
    then show ?thesis by (simp only: floor_add_int[symmetric] add.commute[of "real_of_int (- k * 100)"]) simp
  qed
  show ?thesis
  proof (cases "real_of_int k < 0")
    case True
    then have "round2 (real_of_int k) = - (real_of_int \<lfloor>- real_of_int k * 100 + 1 / 2\<rfloor> / 100)"
      by (simp only: round2_def if_True)
    also have "\<dots> = real_of_int k" by (subst b) simp
    finally show ?thesis .
  next
    case False
    then have "round2 (real_of_int k) = real_of_int \<lfloor>real_of_int k * 100 + 1 / 2\<rfloor> / 100"
      by (simp only: round2_def if_False)
    also have "\<dots> = real_of_int k" by (subst a) simp
    finally show ?thesis .
  qed
qed

lemma toFixedAbs_big:
  assumes "10 ^ 21 \<le> x" "x = real_of_int \<lfloor>x\<rfloor>"
  shows "parseFloat (toFixedAbs x) = Num x"
    and "parseFloat (CHR ''-'' # toFixedAbs x) = Num (- x)"
    and "\<forall>c\<in>set (toFixedAbs x). printedChar c"
proof -
  define n where "n = nat \<lfloor>x\<rfloor>"
  have nn: "0 \<le> \<lfloor>x\<rfloor>" using assms(1) by (simp add: order.trans[of 0 "10 ^ 21"])
  have "(10::int) ^ 21 \<le> \<lfloor>x\<rfloor>" using assms(1) by (simp add: le_floor_iff)
  then have big: "10 ^ 21 \<le> n" unfolding n_def by (simp add: le_nat_iff)
  have rn: "real n = x" using nn assms(2) by (simp add: n_def)
  have t: "toFixedAbs x = natToString n" using assms(1) by (simp add: toFixedAbs_def n_def)
  show "parseFloat (toFixedAbs x) = Num x"
    by (simp add: t parseFloat_natToString(1)[OF big] rn)
  show "parseFloat (CHR ''-'' # toFixedAbs x) = Num (- x)"
    by (simp add: t parseFloat_natToString(2)[OF big] rn)
  show "\<forall>c\<in>set (toFixedAbs x). printedChar c"
    using parseFloat_natToString(3)[OF big] by (auto simp: t printedChar_def)
qed

lemma toFixedAbs_small_chars:
  assumes "0 \<le> x" "x < 10 ^ 21"
  shows "\<forall>c\<in>set (toFixedAbs x). printedChar c"
proof -
  from toFixedAbs_shape[OF assms] obtain ip fp where
    "toFixedAbs x = ip @ CHR ''.'' # fp" "\<forall>c\<in>set ip. isDigit c" "\<forall>c\<in>set fp. isDigit c"
    by blast
  then show ?thesis by (auto simp: printedChar_def)
qed

lemma exportable_field:
  assumes "exportableNumber v"
  shows "parseFloat (toFixed2 v) = roundNumber v"
    and "\<forall>c\<in>set (toFixed2 v). printedChar c"
proof -
  from assms obtain x where v: "v = Num x" and x: "\<bar>x\<bar> < 10 ^ 21 \<or> x = real_of_int \<lfloor>x\<rfloor>"
    by (cases v) (simp_all add: exportableNumber_def)
  have minus: "printedChar (CHR ''-'')" by (simp add: printedChar_def)
  have "parseFloat (toFixed2 (Num x)) = Num (round2 x) \<and> (\<forall>c\<in>set (toFixed2 (Num x)). printedChar c)"
  proof (cases "\<bar>x\<bar> < 10 ^ 21")
    case True
    show ?thesis
    proof (cases "x < 0")
      case neg: True
      with True have b: "0 \<le> - x" "- x < 10 ^ 21" by simp_all
      from parseFloat_toFixedAbs(2)[OF b] toFixedAbs_small_chars[OF b] neg minus show ?thesis
        by (simp add: toFixed2_def round2_def)
    next
      case nonneg: False
      with True have b: "0 \<le> x" "x < 10 ^ 21" by simp_all
      from parseFloat_toFixedAbs(1)[OF b] toFixedAbs_small_chars[OF b] nonneg show ?thesis
        by (simp add: toFixed2_def round2_def)
    qed
  next
    case False
    with x have i: "x = real_of_int \<lfloor>x\<rfloor>" by simp
    then have r: "round2 x = x" using round2_of_int[of "\<lfloor>x\<rfloor>"] by simp
    show ?thesis
    proof (cases "x < 0")
      case neg: True
      with False have b: "10 ^ 21 \<le> - x" by simp
      have "- x = real_of_int \<lfloor>- x\<rfloor>" using i by (metis floor_of_int of_int_minus)
      from toFixedAbs_big[OF b this] neg minus show ?thesis
        by (simp add: toFixed2_def r)
    next
      case nonneg: False
      with False have b: "10 ^ 21 \<le> x" by simp
      from toFixedAbs_big[OF b i] nonneg show ?thesis
        by (simp add: toFixed2_def r)
    qed
  qed
  then show "parseFloat (toFixed2 v) = roundNumber v" "\<forall>c\<in>set (toFixed2 v). printedChar c"
    by (simp_all add: v roundNumber_def)
qed

lemma parseInt_showNat:
  "parseInt (showNat n) = Some (int n)" "parseInt (CHR ''-'' # showNat n) = Some (- int n)"
proof -
  let ?s = "showNat n"
  obtain d ds where s: "?s = d # ds" using showNat_nonempty[of n] by (cases ?s) auto
  have dig: "\<forall>c\<in>set ?s. isDigit c" using showNat_digits by blast
  then have d: "isDigit d" by (simp add: s)
  have s0: "dropWhile jsWhitespace ?s = ?s"
    using d by (simp add: s digit_not_special)
  have s0': "dropWhile jsWhitespace (CHR ''-'' # ?s) = CHR ''-'' # ?s"
    by (simp add: jsWhitespace_def)
  have s1: "dropSign ?s = ?s" "\<not> isNegative ?s" "dropSign (CHR ''-'' # ?s) = ?s"
    "isNegative (CHR ''-'' # ?s)"
    using d by (simp_all add: s dropSign_def isNegative_def digit_not_special)
  have hex: "take 2 ?s \<noteq> ''0x''" "take 2 ?s \<noteq> ''0X''"
  proof -
    have "CHR ''x'' \<notin> set ?s" "CHR ''X'' \<notin> set ?s"
      using dig digit_not_special(6,7) by blast+
    then have "CHR ''x'' \<notin> set (take 2 ?s)" "CHR ''X'' \<notin> set (take 2 ?s)"
      by (auto dest: in_set_takeD)
    then show "take 2 ?s \<noteq> ''0x''" "take 2 ?s \<noteq> ''0X''" by auto
  qed
  have tw: "takeWhile isDigit ?s = ?s" using dig by (simp add: takeWhile_eq_all_conv)
  show "parseInt ?s = Some (int n)"
    unfolding parseInt_def Let_def s0
    by (simp add: s1 hex tw parseNat_showNat showNat_nonempty)
  show "parseInt (CHR ''-'' # ?s) = Some (- int n)"
    unfolding parseInt_def Let_def s0'
    by (simp add: s1 hex tw parseNat_showNat showNat_nonempty)
qed

lemma parseInt_pressedToString:
  assumes "\<bar>p\<bar> < 10 ^ 21"
  shows "parseInt (pressedToString (Some p)) = Some p"
proof (cases "p < 0")
  case True
  with assms have "nat (- p) < 10 ^ 21" by (simp add: nat_less_iff)
  with True show ?thesis
    by (simp add: pressedToString_def natToString_def parseInt_showNat)
next
  case False
  with assms have "nat p < 10 ^ 21" by (simp add: nat_less_iff)
  with False show ?thesis
    by (simp add: pressedToString_def natToString_def parseInt_showNat)
qed

lemma pressedToString_chars:
  assumes "\<bar>p\<bar> < 10 ^ 21" "c \<in> set (pressedToString (Some p))"
  shows "printedChar c"
proof (cases "p < 0")
  case True
  with assms(1) have "nat (- p) < 10 ^ 21" by (simp add: nat_less_iff)
  with True assms(2) show ?thesis
    by (auto simp: pressedToString_def natToString_def printedChar_def dest: showNat_digits)
next
  case False
  with assms(1) have "nat p < 10 ^ 21" by (simp add: nat_less_iff)
  with False assms(2) show ?thesis
    by (auto simp: pressedToString_def natToString_def printedChar_def dest: showNat_digits)
qed

subsection \<open>Export followed by import\<close>

lemma split6:
  assumes "c \<notin> set f1" "c \<notin> set f2" "c \<notin> set f3" "c \<notin> set f4" "c \<notin> set f5" "c \<notin> set f6"
  shows "jsSplit c (f1 @ [c] @ f2 @ [c] @ f3 @ [c] @ f4 @ [c] @ f5 @ [c] @ f6)
           = [f1, f2, f3, f4, f5, f6]"
  using assms by (simp add: jsSplit_append jsSplit_noSep)

lemma exportable_field_chars:
  assumes "exportableNumber v"
  shows "CHR '','' \<notin> set (toFixed2 v)" "newline \<notin> set (toFixed2 v)"
  using exportable_field(2)[OF assms] printedChar_not_special(2,3) by blast+

lemma exportable_label_chars:
  assumes "\<bar>p\<bar> < 10 ^ 21"
  shows "CHR '','' \<notin> set (pressedToString (Some p))" "newline \<notin> set (pressedToString (Some p))"
  using pressedToString_chars[OF assms] printedChar_not_special(2,3) by blast+

lemma rowLine_parse:
  assumes "exportableRow d"
  shows "jsSplit (CHR '','') (rowLine d)
           = [pressedToString (pressed d), toFixed2 (row_y d), toFixed2 (row_vel d),
              toFixed2 (row_dist d), toFixed2 (mid1 d), toFixed2 (mid2 d)]"
    and "parseRow (jsSplit (CHR '','') (rowLine d)) = roundRow d"
    and "newline \<notin> set (rowLine d)"
proof -
  from assms obtain p where p: "pressed d = Some p" "\<bar>p\<bar> < 10 ^ 21"
    by (auto simp: exportableRow_def split: option.splits)
  from assms have n: "exportableNumber (row_y d)" "exportableNumber (row_vel d)" "exportableNumber (row_dist d)"
    "exportableNumber (mid1 d)" "exportableNumber (mid2 d)"
    by (simp_all add: exportableRow_def)
  have r: "rowLine d = pressedToString (pressed d) @ [CHR '',''] @ toFixed2 (row_y d) @ [CHR '','']
       @ toFixed2 (row_vel d) @ [CHR '',''] @ toFixed2 (row_dist d) @ [CHR '','']
       @ toFixed2 (mid1 d) @ [CHR '',''] @ toFixed2 (mid2 d)"
    by (simp add: rowLine_def)
  show sp: "jsSplit (CHR '','') (rowLine d)
           = [pressedToString (pressed d), toFixed2 (row_y d), toFixed2 (row_vel d),
              toFixed2 (row_dist d), toFixed2 (mid1 d), toFixed2 (mid2 d)]"
    unfolding r
    by (rule split6) (simp_all add: p exportable_label_chars[OF p(2)] exportable_field_chars(1) n)
  show "parseRow (jsSplit (CHR '','') (rowLine d)) = roundRow d"
    unfolding sp
    by (cases d)
      (use p n in \<open>simp add: parseRow_def roundRow_def parseInt_pressedToString exportable_field(1)\<close>)
  have nc: "newline \<noteq> CHR '',''" by (simp add: newline_def)
  show "newline \<notin> set (rowLine d)"
    unfolding r
    using exportable_label_chars(2)[OF p(2)] exportable_field_chars(2)[OF n(1)]
      exportable_field_chars(2)[OF n(2)] exportable_field_chars(2)[OF n(3)]
      exportable_field_chars(2)[OF n(4)] exportable_field_chars(2)[OF n(5)]
    by (simp add: p nc)
qed

lemma rowLine_not_blank: "jsTrim (rowLine d) \<noteq> []"
proof
  assume "jsTrim (rowLine d) = []"
  then have "\<forall>c\<in>set (rowLine d). jsWhitespace c" by (rule jsTrim_Nil)
  moreover have "CHR '','' \<in> set (rowLine d)" by (simp add: rowLine_def)
  ultimately have "jsWhitespace (CHR '','')" by blast
  then show False by (simp add: jsWhitespace_def)
qed

lemma parseDataLines_rowLines:
  "\<forall>d\<in>set ds. exportableRow d \<Longrightarrow> parseDataLines (map rowLine ds) = map roundRow ds"
proof (induction ds)
  case Nil
  then show ?case by simp
next
  case (Cons d ds)
  then have d: "exportableRow d" by simp
  from Cons show ?case
    by (simp add: rowLine_not_blank rowLine_parse(1)[OF d] Let_def
        rowLine_parse(2)[OF d, unfolded rowLine_parse(1)[OF d]])
qed

lemma header_no_newline: "newline \<notin> set csvHeader"
  by (simp add: csvHeader_def newline_def)

text \<open>
  Export followed by import, for every integer label that is printed in plain digits.
\<close>

lemma export_then_import:
  assumes "dataset s \<noteq> []" and "\<forall>d\<in>set (dataset s). exportableRow d"
  shows "case downloadCSV s of
           None \<Rightarrow> False
         | Some csv \<Rightarrow>
             uploadCSV csv s' = (None, s'\<lparr>dataset := dataset s' @ map roundRow (dataset s)\<rparr>)"
proof -
  let ?lines = "csvHeader # map rowLine (dataset s)"
  let ?csv = "csvHeader @ [newline] @ jsJoin [newline] (map rowLine (dataset s))"
  have j: "?csv = jsJoin [newline] ?lines"
    using assms(1) by (cases "dataset s") simp_all
  have "\<forall>l\<in>set ?lines. newline \<notin> set l"
    using assms(2) by (auto simp: header_no_newline rowLine_parse(3))
  then have sp: "jsSplit newline ?csv = ?lines"
    unfolding j by (intro jsSplit_jsJoin) simp_all
  have d: "downloadCSV s = Some ?csv"
    using assms(1) by (simp add: downloadCSV_def)
  have "uploadCSV ?csv s' = (None, s'\<lparr>dataset := dataset s' @ map roundRow (dataset s)\<rparr>)"
    unfolding uploadCSV_def Let_def sp
    using assms(1) by (simp add: header_check parseDataLines_rowLines[OF assms(2)])
  with d show ?thesis by simp
qed

lemma finiteRow_exportable: "finiteRow d \<Longrightarrow> exportableRow d"
  by (auto simp: finiteRow_def exportableRow_def)

text \<open>
  Claim C9: for every non-empty dataset whose rows hold a label 0 or 1 and finite numeric
  fields, the export produces a text, and the import of that text is accepted and appends
  to the dataset it finds exactly the exported rows, in order, each numeric field rounded
  to two decimals and each label unchanged.
\<close>

theorem csv_round_trip:
  assumes "dataset s \<noteq> []" and "\<forall>d\<in>set (dataset s). finiteRow d"
  shows "case downloadCSV s of
           None \<Rightarrow> False
         | Some csv \<Rightarrow>
             uploadCSV csv s' = (None, s'\<lparr>dataset := dataset s' @ map roundRow (dataset s)\<rparr>)"
proof -
  from assms(2) have "\<forall>d\<in>set (dataset s). exportableRow d"
    by (simp add: finiteRow_exportable)
  with assms(1) show ?thesis by (rule export_then_import)
qed

theorem csv_round_trip_witness:
  "dataset (snd (uploadCSV (the (downloadCSV exampleRecording)) (GameEngine_new 400 600)))
     = [\<lparr>pressed = Some 1, row_y = Num 295.2, row_vel = Num (- 4.81), row_dist = Num 348,
         mid1 = Num 3.14, mid2 = Num 300\<rparr>,
        \<lparr>pressed = Some 0, row_y = Num 290.6, row_vel = Num 0, row_dist = Num (1234 * 10 ^ 18),
         mid1 = Num 3.14, mid2 = Num 300\<rparr>]"
proof -
  have a: "dataset exampleRecording \<noteq> []" by (simp add: exampleRecording_def)
  have b: "\<forall>d\<in>set (dataset exampleRecording). finiteRow d"
    by (simp add: exampleRecording_def finiteRow_def exportableNumber_def)
  from csv_round_trip[OF a b, of "GameEngine_new 400 600"] obtain csv where
    "downloadCSV exampleRecording = Some csv"
    "uploadCSV csv (GameEngine_new 400 600) =
       (None, (GameEngine_new 400 600)\<lparr>dataset := dataset (GameEngine_new 400 600)
          @ map roundRow (dataset exampleRecording)\<rparr>)"
    by (auto split: option.splits)
  then show ?thesis
    by (simp add: exampleRecording_def roundRow_def roundNumber_def round2_def GameEngine_new_def)
qed

subsection \<open>Balancing\<close>

lemma sampleLoop_full:
  assumes "0 < step" "sampleSize \<le> length sampled"
  shows "sampleLoop class0 sampleSize step i sampled = Some sampled"
  using assms
proof (induction "length class0 - i" arbitrary: i rule: less_induct)
  case less
  show ?case
  proof (cases "i < length class0")
    case True
    with less.prems have "length class0 - (i + step) < length class0 - i" by simp
    from less.hyps[OF this less.prems] True less.prems(2) show ?thesis
      by (subst sampleLoop.simps) simp
  next
    case False
    then show ?thesis by (subst sampleLoop.simps) simp
  qed
qed

lemma sampleLoop_stride:
  assumes "0 < step" "length sampled + k = sampleSize" "0 < k \<Longrightarrow> i + (k - 1) * step < length class0"
  shows "sampleLoop class0 sampleSize step i sampled
           = Some (sampled @ map (\<lambda>j. class0 ! (i + j * step)) [0..<k])"
  using assms
proof (induction k arbitrary: i sampled)
  case 0
  then show ?case by (simp add: sampleLoop_full)
next
  case (Suc k)
  from Suc.prems(3) have i: "i < length class0" 
    by (metis add_lessD1 zero_less_Suc)
  have l: "length sampled < sampleSize" using Suc.prems(2) by simp
  have next_ok: "0 < k \<Longrightarrow> (i + step) + (k - 1) * step < length class0"
  proof -
    assume "0 < k"
    then have "(i + step) + (k - 1) * step = i + (Suc k - 1) * step"
      by (cases k) simp_all
    with Suc.prems(3) show ?thesis by simp
  qed
  have "sampleLoop class0 sampleSize step (i + step) (sampled @ [class0 ! i])
          = Some ((sampled @ [class0 ! i]) @ map (\<lambda>j. class0 ! ((i + step) + j * step)) [0..<k])"
    using Suc.prems(2) by (intro Suc.IH[OF Suc.prems(1) _ next_ok]) simp_all
  moreover have "map (\<lambda>j. class0 ! (i + j * step)) [0..<Suc k]
      = class0 ! i # map (\<lambda>j. class0 ! ((i + step) + j * step)) [0..<k]"
  proof -
    have "[0..<Suc k] = 0 # map Suc [0..<k]"
      by (simp add: upt_conv_Cons map_Suc_upt del: upt_Suc)
    then show ?thesis by (simp add: comp_def add.assoc del: upt_Suc)
  qed
  ultimately show ?case using i l
    by (subst sampleLoop.simps) simp
qed

lemmas double_defs = roundQuotient_def nearestDouble_def lengthDividedBy_def Math_min_2_def
  Math_floor_def bitLength.simps Let_def

text \<open>
  The doubles of the balancing stage for 47 rows without a jump and 35 with one:
  \<^verbatim>\<open>47 / 35\<close> is rounded down, and \<^verbatim>\<open>35 * (47 / 35)\<close> is the double just below 47.
\<close>

lemma ratio_47_35: "Math_min_2 (lengthDividedBy 47 35) = Double 6047690928183237 (- 52)"
  by (simp add: double_defs)

lemma product_47_35:
  "lengthTimes 35 (Double 6047690928183237 (- 52)) = Double 6614661952700415 (- 47)"
  by (simp add: double_defs)

lemma sampleSize_47_35: "Math_floor (Double 6614661952700415 (- 47)) = 46"
  by (simp add: double_defs)

lemma step_47_46: "Math_floor (lengthDividedBy 47 46) = 1"
  by (simp add: double_defs)

lemma skewedDataset_classes:
  "filter (\<lambda>d. pressed d = Some 0) skewedDataset = map (exampleRow 0) [0..<47]"
  "filter (\<lambda>d. pressed d = Some 1) skewedDataset = map (exampleRow 1) [0..<35]"
  by (simp_all add: skewedDataset_def exampleRow_def filter_map comp_def)

lemma balanceDataset_no_jump:
  "filter (\<lambda>d. pressed d = Some 1) ds = [] \<Longrightarrow> balanceDataset h w ds = Some (Inl NoJumpActions)"
  by (simp add: balanceDataset_def)

lemma balanceDataset_positives:
  assumes "balanceDataset h w ds = Some (Inr (features, labels))"
  shows "\<exists>sampledClass0.
           features = map (rowFeatures h w) sampledClass0
                        @ map (rowFeatures h w) (filter (\<lambda>d. pressed d = Some 1) ds)
           \<and> labels = replicate (length sampledClass0) [0]
                        @ replicate (length (filter (\<lambda>d. pressed d = Some 1) ds)) [1]"
  using assms
  by (auto simp: balanceDataset_def Let_def map_replicate_const split: if_splits option.splits)

text \<open>
  Claim C3, where the code departs from it. For 47 rows with label 0 and 35 with label 1
  the claim's count is \<open>floor (35 * min 2 (47 / 35)) = 47\<close>: the negative class is
  already small and is kept. The trainer accepts the 82 rows and hands to the shuffle the
  35 rows with label 1 after only 46 rows with label 0, the first 46 at stride 1: the
  product \<^verbatim>\<open>class1.length * ratio\<close> is a double just below 47, and \<^verbatim>\<open>Math.floor\<close>
  makes 46 of it, so the last row without a jump is dropped.
\<close>

theorem balancing_drops_a_row:
  "MLTrainer_prepare skewedDataset 600 400 Overfitting None
     = Some (Inr (map (rowFeatures 600 400) (map (exampleRow 0) [0..<46])
                    @ map (rowFeatures 600 400) (map (exampleRow 1) [0..<35]),
                  replicate 46 [0] @ replicate 35 [1]))
   \<and> length (filter (\<lambda>d. pressed d = Some 0) skewedDataset) = 47
   \<and> length (filter (\<lambda>d. pressed d = Some 1) skewedDataset) = 35
   \<and> nat \<lfloor>35 * min 2 (47 / 35 :: real)\<rfloor> = 47"
proof -
  let ?class0 = "map (exampleRow 0) [0..<47]"
  have len: "length skewedDataset = 82" by (simp add: skewedDataset_def)
  have "sampleLoop ?class0 46 1 0 []
          = Some ([] @ map (\<lambda>j. ?class0 ! (0 + j * 1)) [0..<46])"
    by (rule sampleLoop_stride) simp_all
  also have "map (\<lambda>j. ?class0 ! (0 + j * 1)) [0..<46] = map (exampleRow 0) [0..<46]"
    by (rule map_cong) (simp_all del: upt_Suc)
  finally have loop: "sampleLoop ?class0 46 (Suc 0) 0 [] = Some (map (exampleRow 0) [0..<46])"
    by simp
  have "balanceDataset 600 400 skewedDataset
      = Some (Inr (map (rowFeatures 600 400) (map (exampleRow 0) [0..<46])
                    @ map (rowFeatures 600 400) (map (exampleRow 1) [0..<35]),
                  replicate 46 [0] @ replicate 35 [1]))"
    unfolding balanceDataset_def Let_def skewedDataset_classes
    by (simp add: ratio_47_35 product_47_35 sampleSize_47_35 step_47_46 loop
        map_replicate_const del: upt_Suc lengthTimes.simps)
  moreover have "MLTrainer_prepare skewedDataset 600 400 Overfitting None
      = balanceDataset 600 400 skewedDataset"
    by (simp add: MLTrainer_prepare_def len finalDataset_def)
  moreover have "nat \<lfloor>35 * min 2 (47 / 35 :: real)\<rfloor> = 47" by simp
  ultimately show ?thesis by (simp add: skewedDataset_classes)
qed

end
